theory Spec2Isabelle
  imports Complex_Main "HOL-Library.Char_ord" "HOL-Library.List_Lexorder"
    "HOL-Library.Product_Lexorder"
begin

section \<open>Decoded JSON and the Python operations the dashboard applies to it\<close>

text \<open>
  The three scripts (\<^verbatim>\<open>app.py\<close>, \<^verbatim>\<open>pharma_dashboard_v1.py\<close>, \<^verbatim>\<open>app_patched.py\<close>) work on
  whatever \<^verbatim>\<open>response.json()\<close> returns, without checking its shape. A decoded value
  is therefore any JSON value; a Python dict is an association list read with
  \<open>map_of\<close>. \<open>JFloat\<close> carries a real number: only its being zero is ever observed.
\<close>

datatype json =
    JNull
  | JBool bool
  | JInt int
  | JFloat real
  | JStr string
  | JList "json list"
  | JObj "(string \<times> json) list"

text \<open>
  The exceptions that can travel through the scripts. \<open>Timeout\<close>, \<open>HTTPError\<close> and
  \<open>JSONDecodeError\<close> (the one of \<^verbatim>\<open>requests\<close>) are subclasses of
  \<open>RequestException\<close>; \<open>ValueError\<close> stands for a decoding failure that is not one,
  and is also what pandas and \<^verbatim>\<open>time.sleep\<close> raise on a value they refuse.
  \<open>RuntimeError msg cause\<close> is \<^verbatim>\<open>raise RuntimeError(msg) from cause\<close>.
\<close>

datatype exn =
    HTTPError nat
  | Timeout
  | RequestException
  | JSONDecodeError
  | ValueError
  | OverflowError
  | AttributeError
  | TypeError
  | KeyError string
  | IndexError
  | RuntimeError string "exn option"

fun is_timeout :: "exn \<Rightarrow> bool" where
  "is_timeout Timeout = True"
| "is_timeout _ = False"

fun is_request_exception :: "exn \<Rightarrow> bool" where
  "is_request_exception (HTTPError _) = True"
| "is_request_exception Timeout = True"
| "is_request_exception RequestException = True"
| "is_request_exception JSONDecodeError = True"
| "is_request_exception _ = False"

text \<open>\<^verbatim>\<open>if x:\<close> -- Python truthiness of a decoded value.\<close>

fun truthy :: "json \<Rightarrow> bool" where
  "truthy JNull = False"
| "truthy (JBool b) = b"
| "truthy (JInt i) = (i \<noteq> 0)"
| "truthy (JFloat r) = (r \<noteq> 0)"
| "truthy (JStr s) = (s \<noteq> [])"
| "truthy (JList xs) = (xs \<noteq> [])"
| "truthy (JObj kvs) = (kvs \<noteq> [])"

text \<open>\<^verbatim>\<open>x.get(key, default)\<close>: only a dict has the method.\<close>

fun dict_get :: "json \<Rightarrow> string \<Rightarrow> json \<Rightarrow> exn + json" where
  "dict_get (JObj kvs) k d = Inr (case map_of kvs k of None \<Rightarrow> d | Some v \<Rightarrow> v)"
| "dict_get _ k d = Inl AttributeError"

text \<open>\<^verbatim>\<open>x[key]\<close> with a string key.\<close>

fun getitem :: "json \<Rightarrow> string \<Rightarrow> exn + json" where
  "getitem (JObj kvs) k = (case map_of kvs k of None \<Rightarrow> Inl (KeyError k) | Some v \<Rightarrow> Inr v)"
| "getitem _ k = Inl TypeError"

text \<open>
  \<^verbatim>\<open>x[0]\<close>: the first element of a list, the first character of a string; a dict
  decoded from JSON has string keys only, so the key \<open>0\<close> is missing.
\<close>

fun index0 :: "json \<Rightarrow> exn + json" where
  "index0 (JList xs) = (case xs of [] \<Rightarrow> Inl IndexError | x # _ \<Rightarrow> Inr x)"
| "index0 (JStr s) = (case s of [] \<Rightarrow> Inl IndexError | c # _ \<Rightarrow> Inr (JStr [c]))"
| "index0 (JObj kvs) = Inl (KeyError ''0'')"
| "index0 _ = Inl TypeError"

text \<open>\<^verbatim>\<open>for v in x\<close>: a dict yields its keys, a string its characters.\<close>

fun iterate :: "json \<Rightarrow> exn + json list" where
  "iterate (JList xs) = Inr xs"
| "iterate (JStr s) = Inr (map (\<lambda>c. JStr [c]) s)"
| "iterate (JObj kvs) = Inr (map (\<lambda>kv. JStr (fst kv)) kvs)"
| "iterate _ = Inl TypeError"

text \<open>\<^verbatim>\<open>len(x)\<close>.\<close>

fun py_len :: "json \<Rightarrow> exn + nat" where
  "py_len (JList xs) = Inr (length xs)"
| "py_len (JStr s) = Inr (length s)"
| "py_len (JObj kvs) = Inr (length kvs)"
| "py_len _ = Inl TypeError"

section \<open>Records and data frames\<close>

text \<open>
  One row of a data frame built by \<^verbatim>\<open>parse_fda\<close> or \<^verbatim>\<open>parse_trials\<close>. The \<open>date\<close>
  column first holds the raw value and, after \<^verbatim>\<open>pd.to_datetime\<close>, a timestamp or
  \<open>NaT\<close> (\<open>None\<close>); hence the type parameter. \<open>JNull\<close> in a column is Python's
  \<open>None\<close>. A data frame is the list of its rows; \<^verbatim>\<open>df.empty\<close> is \<open>df = []\<close>.
\<close>

record 'd row =
  source :: string
  sponsor :: json
  date :: 'd
  phase :: json
  trial_id :: json
  submission_type :: json
  submission_class :: json

text \<open>
  A pandas timestamp as far as the scripts can tell one from another: its calendar
  date and its UTC offset in minutes (\<open>None\<close> for a timestamp without time zone).
  The time of day is never read.
\<close>

record timestamp =
  year :: int
  month :: nat
  day :: nat
  utc_offset :: "int option"

text \<open>
  pandas is not code of this repository: what the scripts need of it is a parameter
  of the model.
  \<^item> \<open>to_datetime column\<close> is \<^verbatim>\<open>pd.to_datetime(column, errors="coerce")\<close>: it raises
    (pandas does so, whatever \<^verbatim>\<open>errors\<close> says, on some columns, for instance on dates
    with different UTC offsets), or it reads the column; the reading gives each value
    its timestamp, or \<open>NaT\<close> (\<open>None\<close>) for a value that is no date.
  \<^item> \<open>datetimelike frames\<close> tells whether the \<open>date\<close> column of
    \<^verbatim>\<open>pd.concat(frames)\<close> is still datetime-typed, which the accessor \<^verbatim>\<open>.dt\<close> needs;
    pandas falls back to plain objects when the frames do not agree.
  Every property below is stated for every such pair, with the hypotheses it needs on
  it.
\<close>

record pandas =
  to_datetime :: "json list \<Rightarrow> exn + (json \<Rightarrow> timestamp option)"
  datetimelike :: "timestamp option row list list \<Rightarrow> bool"

definition set_date :: "'a row \<Rightarrow> 'b \<Rightarrow> 'b row" where
  "set_date r d =
     \<lparr>source = source r, sponsor = sponsor r, date = d, phase = phase r,
      trial_id = trial_id r, submission_type = submission_type r,
      submission_class = submission_class r\<rparr>"

text \<open>\<^verbatim>\<open>df.dropna(subset=["date"])\<close>.\<close>

definition dropna :: "timestamp option row list \<Rightarrow> timestamp option row list" where
  "dropna df = filter (\<lambda>r. date r \<noteq> None) df"

text \<open>
  The tail shared by both normalizers:
  \<^verbatim>\<open>
    df = pd.DataFrame(records)
    if not df.empty:
        df["date"] = pd.to_datetime(df["date"], errors="coerce")
        df = df.dropna(subset=["date"])
    return df
  \<close>
\<close>

definition to_frame :: "pandas \<Rightarrow> json row list \<Rightarrow> exn + timestamp option row list" where
  "to_frame pd records =
     (if records \<noteq> []
      then (case to_datetime pd (map date records) of
              Inl e \<Rightarrow> Inl e
            | Inr reading \<Rightarrow> Inr (dropna (map (\<lambda>r. set_date r (reading (date r))) records)))
      else Inr [])"

section \<open>The normalizers\<close>

text \<open>The inner loop of \<^verbatim>\<open>parse_fda\<close>: \<^verbatim>\<open>for sub in submissions\<close>.\<close>

fun fda_submissions :: "json \<Rightarrow> json list \<Rightarrow> exn + json row list" where
  "fda_submissions sponsor_name [] = Inr []"
| "fda_submissions sponsor_name (sub # subs) =
     (case dict_get sub ''submission_date'' JNull of
        Inl e \<Rightarrow> Inl e
      | Inr approval_date \<Rightarrow>
          if truthy approval_date then
            (case dict_get sub ''submission_type'' JNull of
               Inl e \<Rightarrow> Inl e
             | Inr stype \<Rightarrow>
                 (case dict_get sub ''submission_class_code'' JNull of
                    Inl e \<Rightarrow> Inl e
                  | Inr sclass \<Rightarrow>
                      (case fda_submissions sponsor_name subs of
                         Inl e \<Rightarrow> Inl e
                       | Inr records \<Rightarrow>
                           Inr (\<lparr>source = ''FDA'', sponsor = sponsor_name,
                                 date = approval_date, phase = JNull, trial_id = JNull,
                                 submission_type = stype, submission_class = sclass\<rparr>
                                # records))))
          else fda_submissions sponsor_name subs)"

text \<open>The outer loop: \<^verbatim>\<open>for entry in data\<close>.\<close>

fun fda_entries :: "json list \<Rightarrow> exn + json row list" where
  "fda_entries [] = Inr []"
| "fda_entries (entry # entries) =
     (case dict_get entry ''sponsor_name'' JNull of
        Inl e \<Rightarrow> Inl e
      | Inr sponsor_name \<Rightarrow>
          (case dict_get entry ''submissions'' (JList []) of
             Inl e \<Rightarrow> Inl e
           | Inr submissions \<Rightarrow>
               (case iterate submissions of
                  Inl e \<Rightarrow> Inl e
                | Inr subs \<Rightarrow>
                    (case fda_submissions sponsor_name subs of
                       Inl e \<Rightarrow> Inl e
                     | Inr here \<Rightarrow>
                         (case fda_entries entries of
                            Inl e \<Rightarrow> Inl e
                          | Inr later \<Rightarrow> Inr (here @ later))))))"

definition parse_fda :: "pandas \<Rightarrow> json \<Rightarrow> exn + timestamp option row list" where
  "parse_fda pd data =
     (case iterate data of
        Inl e \<Rightarrow> Inl e
      | Inr entries \<Rightarrow>
          (case fda_entries entries of
             Inl e \<Rightarrow> Inl e
           | Inr records \<Rightarrow> to_frame pd records))"

text \<open>
  \<^verbatim>\<open>trial.get(key, [""])[0]\<close>, used by \<^verbatim>\<open>parse_trials\<close> for each of its three
  fields.
\<close>

definition first_of :: "json \<Rightarrow> string \<Rightarrow> exn + json" where
  "first_of trial k =
     (case dict_get trial k (JList [JStr '''']) of
        Inl e \<Rightarrow> Inl e
      | Inr v \<Rightarrow> index0 v)"

text \<open>The loop of \<^verbatim>\<open>parse_trials\<close>: \<^verbatim>\<open>for trial in data\<close>.\<close>

fun trial_records :: "json list \<Rightarrow> json \<Rightarrow> exn + json row list" where
  "trial_records [] ph = Inr []"
| "trial_records (trial # trials) ph =
     (case first_of trial ''NCTId'' of
        Inl e \<Rightarrow> Inl e
      | Inr tid \<Rightarrow>
          (case first_of trial ''Sponsors'' of
             Inl e \<Rightarrow> Inl e
           | Inr spons \<Rightarrow>
               (case first_of trial ''CompletionDate'' of
                  Inl e \<Rightarrow> Inl e
                | Inr completion_date \<Rightarrow>
                    if truthy completion_date then
                      (case trial_records trials ph of
                         Inl e \<Rightarrow> Inl e
                       | Inr records \<Rightarrow>
                           Inr (\<lparr>source = ''ClinicalTrials.gov'', sponsor = spons,
                                 date = completion_date, phase = ph, trial_id = tid,
                                 submission_type = JNull, submission_class = JNull\<rparr>
                                # records))
                    else trial_records trials ph)))"

definition parse_trials :: "pandas \<Rightarrow> json \<Rightarrow> json \<Rightarrow> exn + timestamp option row list" where
  "parse_trials pd data ph =
     (case iterate data of
        Inl e \<Rightarrow> Inl e
      | Inr trials \<Rightarrow>
          (case trial_records trials ph of
             Inl e \<Rightarrow> Inl e
           | Inr records \<Rightarrow> to_frame pd records))"

section \<open>HTTP as seen by the scripts\<close>

text \<open>
  A request as \<^verbatim>\<open>requests.get(url, params=..., timeout=...)\<close> issues it. The network
  is a parameter: the outcome of the \<open>n\<close>-th request of a run, which may depend on the
  request. An outcome is an exception raised by \<^verbatim>\<open>requests.get\<close>, or a response with
  its status code and what \<^verbatim>\<open>response.json()\<close> gives (a decoded value or an
  exception). The requests issued so far are the state threaded through every
  fetch, so the number of HTTP attempts is the growth of that list.
  The logger and the Streamlit messages are left out.
\<close>

record request =
  req_url :: string
  req_params :: "(string \<times> json) list"
  req_timeout :: "nat option"

datatype outcome = Response nat "exn + json" | Raises exn

type_synonym net = "nat \<Rightarrow> request \<Rightarrow> outcome"

definition requests_get :: "net \<Rightarrow> request \<Rightarrow> request list \<Rightarrow> outcome \<times> request list" where
  "requests_get net req sent = (net (length sent) req, sent @ [req])"

text \<open>
  \<^verbatim>\<open>time.sleep(backoff ** attempt)\<close>, the wait after a failed attempt. Python's
  floating-point power and \<^verbatim>\<open>time.sleep\<close> are not code of this repository, so the
  call is a parameter of the model: \<open>sleep backoff attempt\<close> is the exception it
  raises (\<open>ValueError\<close> for a negative duration, \<open>OverflowError\<close> for one too
  large), \<open>None\<close> when it returns. No handler of the fetches catches either
  exception. The time spent waiting is not modelled. Inside one call the base is
  fixed, and \<open>pause\<close> is the wait as a function of the attempt alone.
\<close>

type_synonym waits = "int \<Rightarrow> exn option"

type_synonym sleeps = "real \<Rightarrow> waits"

text \<open>Decimal formatting of an integer, as an f-string does it.\<close>

function show_nat :: "nat \<Rightarrow> string" where
  "show_nat n =
     (if n < 10 then [''0123456789'' ! n]
      else show_nat (n div 10) @ [''0123456789'' ! (n mod 10)])"
  by pat_completeness auto
termination
  by (relation "measure id") auto

declare show_nat.simps [simp del]

definition show_int :: "int \<Rightarrow> string" where
  "show_int i = (if i < 0 then ''-'' @ show_nat (nat (- i)) else show_nat (nat i))"

text \<open>What one pass through the body of a retry loop does.\<close>

datatype 'a step = Returned 'a | Raised exn | Retry exn

section \<open>The fetches of \<^verbatim>\<open>app_patched.py\<close>\<close>

text \<open>
  \<^verbatim>\<open>pharma_dashboard_v1.py\<close> has the same two fetches, with the single handler
  \<^verbatim>\<open>except requests.RequestException\<close> (of which \<open>Timeout\<close> is a subclass) in place
  of the two handlers and with other messages; its \<^verbatim>\<open>parse_trials\<close> leaves out the
  two submission columns, which \<^verbatim>\<open>pd.concat\<close> then fills with nulls. The definitions
  of this section and of the driver below are the model of both scripts.
\<close>

text \<open>
  Lines 18-22 of \<^verbatim>\<open>fetch_fda_approvals\<close> (the same in \<^verbatim>\<open>pharma_dashboard_v1.py\<close>):
  \<^verbatim>\<open>
    if limit is None or limit <= 0:
        limit = 100
    if limit > 100:
        limit = 100
  \<close>
\<close>

definition clamp_limit :: "int option \<Rightarrow> int" where
  "clamp_limit limit =
     (let limit1 = (case limit of None \<Rightarrow> 100 | Some l \<Rightarrow> if l \<le> 0 then 100 else l)
      in if limit1 > 100 then 100 else limit1)"

definition fda_search_url :: "int \<Rightarrow> string" where
  "fda_search_url limit =
     ''https://api.fda.gov/drug/drugsfda.json?search=products.marketing_status:'' @ [CHR 39]
       @ ''1'' @ [CHR 39] @ ''&limit='' @ show_int limit"

definition fda_plain_url :: "int \<Rightarrow> string" where
  "fda_plain_url limit = ''https://api.fda.gov/drug/drugsfda.json?limit='' @ show_int limit"

definition fda_urls :: "int \<Rightarrow> string list" where
  "fda_urls limit = [fda_search_url limit, fda_plain_url limit]"

text \<open>\<^verbatim>\<open>requests.get(url, timeout=20)\<close>.\<close>

definition fda_request :: "string \<Rightarrow> request" where
  "fda_request u = \<lparr>req_url = u, req_params = [], req_timeout = Some 20\<rparr>"

text \<open>
  An exception inside the \<^verbatim>\<open>try\<close>: \<^verbatim>\<open>except requests.Timeout\<close> and
  \<^verbatim>\<open>except requests.RequestException\<close> both record it and go on to the next
  attempt; anything else leaves the function.
\<close>

definition handle_exn :: "exn \<Rightarrow> 'a step" where
  "handle_exn e =
     (if is_timeout e then Retry e
      else if is_request_exception e then Retry e
      else Raised e)"

text \<open>The body of the \<^verbatim>\<open>try\<close> of \<^verbatim>\<open>fetch_fda_approvals\<close>, given the outcome of the GET.\<close>

definition fda_attempt :: "outcome \<Rightarrow> json step" where
  "fda_attempt out =
     (case out of
        Raises e \<Rightarrow> handle_exn e
      | Response status body \<Rightarrow>
          if status \<noteq> 200 then Retry (HTTPError status)
          else
            (case body of
               Inl e \<Rightarrow> handle_exn e
             | Inr data \<Rightarrow>
                 (case dict_get data ''results'' (JList []) of
                    Inl e \<Rightarrow> handle_exn e
                  | Inr results \<Rightarrow> Returned results)))"

text \<open>
  \<^verbatim>\<open>for attempt in range(1, retries + 1)\<close> on one URL. The result is what left the
  function (\<open>Some\<close>) or \<open>None\<close> when the loop ran out, then \<open>last_exception\<close> and
  the requests issued. A failed attempt waits before the next one; a wait that raises
  ends the function with that exception.
\<close>

fun fda_attempts ::
  "waits \<Rightarrow> net \<Rightarrow> string \<Rightarrow> int list \<Rightarrow> exn option \<Rightarrow> request list
   \<Rightarrow> (exn + json) option \<times> exn option \<times> request list" where
  "fda_attempts pause net u [] last_exception sent = (None, last_exception, sent)"
| "fda_attempts pause net u (attempt # rest) last_exception sent =
     (case requests_get net (fda_request u) sent of
        (out, sent') \<Rightarrow>
          (case fda_attempt out of
             Returned results \<Rightarrow> (Some (Inr results), last_exception, sent')
           | Raised e \<Rightarrow> (Some (Inl e), last_exception, sent')
           | Retry e \<Rightarrow>
               (case pause attempt of
                  Some x \<Rightarrow> (Some (Inl x), last_exception, sent')
                | None \<Rightarrow> fda_attempts pause net u rest (Some e) sent')))"

text \<open>\<^verbatim>\<open>for url in urls\<close>.\<close>

fun fda_each_url ::
  "waits \<Rightarrow> net \<Rightarrow> string list \<Rightarrow> int \<Rightarrow> exn option \<Rightarrow> request list
   \<Rightarrow> (exn + json) option \<times> exn option \<times> request list" where
  "fda_each_url pause net [] retries last_exception sent = (None, last_exception, sent)"
| "fda_each_url pause net (u # us) retries last_exception sent =
     (case fda_attempts pause net u [1..retries] last_exception sent of
        (Some r, last', sent') \<Rightarrow> (Some r, last', sent')
      | (None, last', sent') \<Rightarrow> fda_each_url pause net us retries last' sent')"

definition fda_failed :: string where
  "fda_failed = ''Failed to fetch FDA approvals after multiple attempts. Check logs for details.''"

definition fetch_fda_approvals ::
  "sleeps \<Rightarrow> net \<Rightarrow> int option \<Rightarrow> int \<Rightarrow> real \<Rightarrow> request list
   \<Rightarrow> (exn + json) \<times> request list" where
  "fetch_fda_approvals sleep net limit retries backoff sent =
     (case fda_each_url (sleep backoff) net (fda_urls (clamp_limit limit)) retries None sent of
        (Some r, last_exception, sent') \<Rightarrow> (r, sent')
      | (None, last_exception, sent') \<Rightarrow> (Inl (RuntimeError fda_failed last_exception), sent'))"

definition trials_url :: string where
  "trials_url = ''https://clinicaltrials.gov/api/query/study_fields''"

definition trials_params :: "string \<Rightarrow> string \<Rightarrow> int \<Rightarrow> (string \<times> json) list" where
  "trials_params term ph max_studies =
     [(''expr'', JStr (term @ '' AND '' @ ph)),
      (''fields'', JStr ''NCTId,Condition,Phase,StartDate,CompletionDate,Sponsors''),
      (''min_rnk'', JInt 1),
      (''max_rnk'', JInt max_studies),
      (''fmt'', JStr ''json'')]"

text \<open>\<^verbatim>\<open>requests.get(base_url, params=params, timeout=20)\<close>.\<close>

definition trials_request :: "string \<Rightarrow> string \<Rightarrow> int \<Rightarrow> request" where
  "trials_request term ph max_studies =
     \<lparr>req_url = trials_url, req_params = trials_params term ph max_studies,
      req_timeout = Some 20\<rparr>"

text \<open>\<^verbatim>\<open>response.json()["StudyFieldsResponse"]["StudyFields"]\<close>.\<close>

definition study_fields :: "json \<Rightarrow> exn + json" where
  "study_fields data =
     (case getitem data ''StudyFieldsResponse'' of
        Inl e \<Rightarrow> Inl e
      | Inr resp \<Rightarrow> getitem resp ''StudyFields'')"

definition trials_attempt :: "outcome \<Rightarrow> json step" where
  "trials_attempt out =
     (case out of
        Raises e \<Rightarrow> handle_exn e
      | Response status body \<Rightarrow>
          if status \<noteq> 200 then Retry (HTTPError status)
          else
            (case body of
               Inl e \<Rightarrow> handle_exn e
             | Inr data \<Rightarrow>
                 (case study_fields data of
                    Inl e \<Rightarrow> handle_exn e
                  | Inr studies \<Rightarrow> Returned studies)))"

fun trials_attempts ::
  "waits \<Rightarrow> net \<Rightarrow> request \<Rightarrow> int list \<Rightarrow> exn option \<Rightarrow> request list
   \<Rightarrow> (exn + json) option \<times> exn option \<times> request list" where
  "trials_attempts pause net req [] last_exception sent = (None, last_exception, sent)"
| "trials_attempts pause net req (attempt # rest) last_exception sent =
     (case requests_get net req sent of
        (out, sent') \<Rightarrow>
          (case trials_attempt out of
             Returned studies \<Rightarrow> (Some (Inr studies), last_exception, sent')
           | Raised e \<Rightarrow> (Some (Inl e), last_exception, sent')
           | Retry e \<Rightarrow>
               (case pause attempt of
                  Some x \<Rightarrow> (Some (Inl x), last_exception, sent')
                | None \<Rightarrow> trials_attempts pause net req rest (Some e) sent')))"

definition trials_failed :: string where
  "trials_failed = ''Failed to fetch ClinicalTrials.gov data after retries.''"

definition fetch_clinical_trials ::
  "sleeps \<Rightarrow> net \<Rightarrow> string \<Rightarrow> string \<Rightarrow> int \<Rightarrow> int \<Rightarrow> request list
   \<Rightarrow> (exn + json) \<times> request list" where
  "fetch_clinical_trials sleep net term ph max_studies retries sent =
     (case trials_attempts (sleep (3 / 2)) net (trials_request term ph max_studies) [1..retries]
             None sent of
        (Some r, last_exception, sent') \<Rightarrow> (r, sent')
      | (None, last_exception, sent') \<Rightarrow> (Inl (RuntimeError trials_failed last_exception), sent'))"

section \<open>The fetches of \<^verbatim>\<open>app.py\<close>\<close>

text \<open>
  The first script issues one GET per source, with no timeout, no retry and no
  clamping of \<open>limit\<close>; \<^verbatim>\<open>raise_for_status()\<close> raises on a 4xx or 5xx status only.
\<close>

definition raise_for_status :: "nat \<Rightarrow> exn option" where
  "raise_for_status status =
     (if 400 \<le> status \<and> status < 600 then Some (HTTPError status) else None)"

text \<open>\<^verbatim>\<open>requests.get(url)\<close> and \<^verbatim>\<open>requests.get(base_url, params=params)\<close>.\<close>

definition app_fda_request :: "int \<Rightarrow> request" where
  "app_fda_request limit =
     \<lparr>req_url = fda_search_url limit, req_params = [], req_timeout = None\<rparr>"

definition app_trials_request :: "string \<Rightarrow> string \<Rightarrow> int \<Rightarrow> request" where
  "app_trials_request term ph max_studies =
     \<lparr>req_url = trials_url, req_params = trials_params term ph max_studies,
      req_timeout = None\<rparr>"

definition app_fetch_fda_approvals ::
  "net \<Rightarrow> int \<Rightarrow> request list \<Rightarrow> (exn + json) \<times> request list" where
  "app_fetch_fda_approvals net limit sent =
     (case requests_get net (app_fda_request limit) sent of
        (Raises e, sent') \<Rightarrow> (Inl e, sent')
      | (Response status body, sent') \<Rightarrow>
          (case raise_for_status status of
             Some e \<Rightarrow> (Inl e, sent')
           | None \<Rightarrow>
               (case body of
                  Inl e \<Rightarrow> (Inl e, sent')
                | Inr data \<Rightarrow> (dict_get data ''results'' (JList []), sent'))))"

definition app_fetch_clinical_trials ::
  "net \<Rightarrow> string \<Rightarrow> string \<Rightarrow> int \<Rightarrow> request list \<Rightarrow> (exn + json) \<times> request list" where
  "app_fetch_clinical_trials net term ph max_studies sent =
     (case requests_get net (app_trials_request term ph max_studies) sent of
        (Raises e, sent') \<Rightarrow> (Inl e, sent')
      | (Response status body, sent') \<Rightarrow>
          (case raise_for_status status of
             Some e \<Rightarrow> (Inl e, sent')
           | None \<Rightarrow>
               (case body of
                  Inl e \<Rightarrow> (Inl e, sent')
                | Inr data \<Rightarrow> (study_fields data, sent'))))"

section \<open>Aggregation\<close>

text \<open>
  \<^verbatim>\<open>combined["month"] = combined["date"].dt.to_period("M")\<close>: the year and month of
  the date, \<open>NaT\<close> staying \<open>NaT\<close>.
\<close>

type_synonym period = "int \<times> nat"

definition to_period_M :: "timestamp option \<Rightarrow> period option" where
  "to_period_M d = (case d of None \<Rightarrow> None | Some t \<Rightarrow> Some (year t, month t))"

text \<open>
  \<^verbatim>\<open>combined.groupby([combined["month"], "source"]).size()\<close>: one entry per
  (month, source) pair that occurs, with the number of its rows, in ascending order
  of the pair; a row whose month is \<open>NaT\<close> belongs to no group.
\<close>

definition group_keys :: "timestamp option row list \<Rightarrow> (period \<times> string) list" where
  "group_keys combined =
     List.map_filter
       (\<lambda>r. case to_period_M (date r) of None \<Rightarrow> None | Some m \<Rightarrow> Some (m, source r))
       combined"

definition groupby_size :: "timestamp option row list \<Rightarrow> ((period \<times> string) \<times> nat) list" where
  "groupby_size combined =
     (let keys = group_keys combined
      in map (\<lambda>k. (k, count_list keys k)) (sort (remdups keys)))"

text \<open>
  \<^verbatim>\<open>.unstack(fill_value=0)\<close>: the table the chart is drawn from, one line per
  month and one column per source, a missing pair filled with 0.
\<close>

definition unstack :: "((period \<times> string) \<times> nat) list \<Rightarrow> (period \<times> (string \<times> nat) list) list" where
  "unstack sizes =
     (let months = remdups (map (\<lambda>kv. fst (fst kv)) sizes);
          sources = sort (remdups (map (\<lambda>kv. snd (fst kv)) sizes))
      in map (\<lambda>m. (m, map (\<lambda>s. (s, case map_of sizes (m, s) of None \<Rightarrow> 0 | Some c \<Rightarrow> c))
                          sources))
             months)"

text \<open>
  What a run of a script leaves: the combined table; the monthly counts, that is the
  value of \<^verbatim>\<open>groupby(...).size()\<close>, and the table \<^verbatim>\<open>counts\<close> unstacked from it, which
  is plotted (both \<open>None\<close> when the script shows its "No data available" notice
  instead); the exceptions its own handlers caught and reported; and the requests it
  issued.
\<close>

record dashboard =
  combined :: "timestamp option row list"
  monthly :: "((period \<times> string) \<times> nat) list option"
  chart :: "(period \<times> (string \<times> nat) list) list option"
  failures :: "exn list"
  requests :: "request list"

text \<open>
  The end of every script, outside every \<^verbatim>\<open>try\<close>:
  \<^verbatim>\<open>
    if not combined.empty:
        combined["month"] = combined["date"].dt.to_period("M")
    ...
    if not combined.empty:
        counts = combined.groupby([combined["month"], "source"]).size().unstack(fill_value=0)
        ...
    else:
        st.warning("No data available for the selected filters.")
  \<close>
  \<open>frames\<close> are the frames the table was concatenated from: on a table with rows,
  \<^verbatim>\<open>.dt\<close> raises \<open>AttributeError\<close> unless its date column is datetime-typed. The month
  column is a function of the date column, so the combined table is kept as it is.
\<close>

definition present ::
  "pandas \<Rightarrow> timestamp option row list list \<Rightarrow> timestamp option row list \<Rightarrow> exn list
   \<Rightarrow> request list \<Rightarrow> exn + dashboard" where
  "present pd frames table errs sent =
     (if table \<noteq> []
      then (if datetimelike pd frames
            then Inr \<lparr>combined = table, monthly = Some (groupby_size table),
                      chart = Some (unstack (groupby_size table)), failures = errs,
                      requests = sent\<rparr>
            else Inl AttributeError)
      else Inr \<lparr>combined = table, monthly = None, chart = None, failures = errs,
                requests = sent\<rparr>)"

section \<open>The driver of \<^verbatim>\<open>app_patched.py\<close>\<close>

text \<open>
  Lines 162-170: the FDA fetch and its normalization inside one \<^verbatim>\<open>try\<close>;
  \<^verbatim>\<open>except Exception\<close> reports the failure and goes on with an empty frame. The
  call uses the defaults \<open>retries = 3\<close> and \<open>backoff = 1.5\<close>.
  The driver of \<^verbatim>\<open>pharma_dashboard_v1.py\<close> (lines 123-145) has the same structure.
\<close>

definition load_fda ::
  "pandas \<Rightarrow> sleeps \<Rightarrow> net \<Rightarrow> int \<Rightarrow> request list
   \<Rightarrow> timestamp option row list \<times> exn list \<times> request list" where
  "load_fda pd sleep net fda_limit sent =
     (case fetch_fda_approvals sleep net (Some fda_limit) 3 (3 / 2) sent of
        (Inl e, sent') \<Rightarrow> ([], [e], sent')
      | (Inr fda_raw, sent') \<Rightarrow>
          (case parse_fda pd fda_raw of
             Inl e \<Rightarrow> ([], [e], sent')
           | Inr fda_df \<Rightarrow>
               (case py_len fda_raw of
                  Inl e \<Rightarrow> ([], [e], sent')
                | Inr n \<Rightarrow> (fda_df, [], sent'))))"

text \<open>Lines 173-183: \<^verbatim>\<open>for ph in phases\<close>, each phase in a \<^verbatim>\<open>try\<close> of its own.\<close>

fun load_trials ::
  "pandas \<Rightarrow> sleeps \<Rightarrow> net \<Rightarrow> string \<Rightarrow> string list
   \<Rightarrow> timestamp option row list list \<Rightarrow> exn list \<Rightarrow> request list
   \<Rightarrow> timestamp option row list list \<times> exn list \<times> request list" where
  "load_trials pd sleep net term [] trials_dfs errs sent = (trials_dfs, errs, sent)"
| "load_trials pd sleep net term (ph # phases) trials_dfs errs sent =
     (case fetch_clinical_trials sleep net term ph 200 2 sent of
        (Inl e, sent') \<Rightarrow> load_trials pd sleep net term phases trials_dfs (errs @ [e]) sent'
      | (Inr trials_raw, sent') \<Rightarrow>
          (case parse_trials pd trials_raw (JStr ph) of
             Inl e \<Rightarrow> load_trials pd sleep net term phases trials_dfs (errs @ [e]) sent'
           | Inr trials \<Rightarrow>
               load_trials pd sleep net term phases (trials_dfs @ [trials]) errs sent'))"

text \<open>
  Lines 185-188:
  \<^verbatim>\<open>
    trials_df = pd.concat(trials_dfs, ignore_index=True) if trials_dfs else pd.DataFrame()
    combined = pd.concat([fda_df, trials_df], ignore_index=True)
        if (not fda_df.empty or not trials_df.empty) else pd.DataFrame()
  \<close>
\<close>

definition combine ::
  "timestamp option row list \<Rightarrow> timestamp option row list list \<Rightarrow> timestamp option row list" where
  "combine fda_df trials_dfs =
     (let trials_df = (if trials_dfs \<noteq> [] then concat trials_dfs else [])
      in if fda_df \<noteq> [] \<or> trials_df \<noteq> [] then fda_df @ trials_df else [])"

text \<open>
  The script up to line 185: the FDA frame, the trial frames, the failures reported
  and the requests issued.
\<close>

definition gather_patched ::
  "pandas \<Rightarrow> sleeps \<Rightarrow> net \<Rightarrow> string \<Rightarrow> string list \<Rightarrow> int
   \<Rightarrow> timestamp option row list \<times> timestamp option row list list \<times> exn list \<times> request list" where
  "gather_patched pd sleep net term phases fda_limit =
     (case load_fda pd sleep net fda_limit [] of
        (fda_df, errs, sent) \<Rightarrow>
          (case load_trials pd sleep net term phases [] errs sent of
             (trials_dfs, errs', sent') \<Rightarrow> (fda_df, trials_dfs, errs', sent')))"

definition run_patched ::
  "pandas \<Rightarrow> sleeps \<Rightarrow> net \<Rightarrow> string \<Rightarrow> string list \<Rightarrow> int \<Rightarrow> exn + dashboard" where
  "run_patched pd sleep net term phases fda_limit =
     (case gather_patched pd sleep net term phases fda_limit of
        (fda_df, trials_dfs, errs, sent) \<Rightarrow>
          present pd (fda_df # trials_dfs) (combine fda_df trials_dfs) errs sent)"

section \<open>The driver of \<^verbatim>\<open>app.py\<close>\<close>

text \<open>
  Lines 91-105: no \<^verbatim>\<open>try\<close> anywhere, so the first exception ends the run.
\<close>

fun app_load_trials ::
  "pandas \<Rightarrow> net \<Rightarrow> string \<Rightarrow> string list
   \<Rightarrow> timestamp option row list list \<Rightarrow> request list
   \<Rightarrow> exn + timestamp option row list list \<times> request list" where
  "app_load_trials pd net term [] trials_dfs sent = Inr (trials_dfs, sent)"
| "app_load_trials pd net term (ph # phases) trials_dfs sent =
     (case app_fetch_clinical_trials net term ph 200 sent of
        (Inl e, sent') \<Rightarrow> Inl e
      | (Inr trials_raw, sent') \<Rightarrow>
          (case parse_trials pd trials_raw (JStr ph) of
             Inl e \<Rightarrow> Inl e
           | Inr trials \<Rightarrow> app_load_trials pd net term phases (trials_dfs @ [trials]) sent'))"

text \<open>
  Lines 102-105:
  \<^verbatim>\<open>
    trials_df = pd.concat(trials_dfs, ignore_index=True) if trials_dfs else pd.DataFrame()
    combined = pd.concat([fda_df, trials_df], ignore_index=True)
  \<close>
\<close>

definition app_combine ::
  "timestamp option row list \<Rightarrow> timestamp option row list list \<Rightarrow> timestamp option row list" where
  "app_combine fda_df trials_dfs =
     (let trials_df = (if trials_dfs \<noteq> [] then concat trials_dfs else [])
      in fda_df @ trials_df)"

definition run_app ::
  "pandas \<Rightarrow> net \<Rightarrow> string \<Rightarrow> string list \<Rightarrow> int \<Rightarrow> exn + dashboard" where
  "run_app pd net term phases fda_limit =
     (case app_fetch_fda_approvals net fda_limit [] of
        (Inl e, sent) \<Rightarrow> Inl e
      | (Inr fda_raw, sent) \<Rightarrow>
          (case parse_fda pd fda_raw of
             Inl e \<Rightarrow> Inl e
           | Inr fda_df \<Rightarrow>
               (case app_load_trials pd net term phases [] sent of
                  Inl e \<Rightarrow> Inl e
                | Inr (trials_dfs, sent') \<Rightarrow>
                    present pd (fda_df # trials_dfs) (app_combine fda_df trials_dfs) []
                      sent')))"

section \<open>Library behaviour for the scenarios\<close>

text \<open>
  One instance of each parameter, used in the concrete scenarios only. The compact
  form \<open>YYYYMMDD\<close>, in which openFDA writes \<open>submission_date\<close>, is read as a
  timestamp without time zone.
\<close>

definition digit_of :: "char \<Rightarrow> nat option" where
  "digit_of c =
     map_of [(CHR ''0'', 0), (CHR ''1'', 1), (CHR ''2'', 2), (CHR ''3'', 3), (CHR ''4'', 4),
             (CHR ''5'', 5), (CHR ''6'', 6), (CHR ''7'', 7), (CHR ''8'', 8), (CHR ''9'', 9)] c"

fun number_of :: "nat \<Rightarrow> string \<Rightarrow> nat option" where
  "number_of acc [] = Some acc"
| "number_of acc (c # cs) =
     (case digit_of c of None \<Rightarrow> None | Some d \<Rightarrow> number_of (10 * acc + d) cs)"

definition days_in_month :: "nat \<Rightarrow> nat \<Rightarrow> nat" where
  "days_in_month y m =
     (if m = 2 then (if y mod 4 = 0 \<and> (y mod 100 \<noteq> 0 \<or> y mod 400 = 0) then 29 else 28)
      else if m = 4 \<or> m = 6 \<or> m = 9 \<or> m = 11 then 30
      else 31)"

definition compact_date :: "string \<Rightarrow> timestamp option" where
  "compact_date s =
     (case (number_of 0 (take 4 s), number_of 0 (take 2 (drop 4 s)), number_of 0 (drop 6 s)) of
        (Some y, Some m, Some d) \<Rightarrow>
          if 1 \<le> m \<and> m \<le> 12 \<and> 1 \<le> d \<and> d \<le> days_in_month y m
          then Some \<lparr>year = int y, month = m, day = d, utc_offset = None\<rparr>
          else None
      | _ \<Rightarrow> None)"

text \<open>
  The ISO form \<open>YYYY-MM-DDThh:mm:ss+hh:mm\<close>, a timestamp with a UTC offset.
\<close>

definition iso_date :: "string \<Rightarrow> timestamp option" where
  "iso_date s =
     (if s ! 4 = CHR ''-'' \<and> s ! 7 = CHR ''-'' \<and> s ! 10 = CHR ''T'' \<and> s ! 13 = CHR '':''
         \<and> s ! 16 = CHR '':'' \<and> (s ! 19 = CHR ''+'' \<or> s ! 19 = CHR ''-'') \<and> s ! 22 = CHR '':''
      then
        (case (compact_date (take 4 s @ take 2 (drop 5 s) @ take 2 (drop 8 s)),
               number_of 0 (take 2 (drop 11 s) @ take 2 (drop 14 s) @ take 2 (drop 17 s)),
               number_of 0 (take 2 (drop 20 s)), number_of 0 (drop 23 s)) of
           (Some t, Some time, Some hh, Some mm) \<Rightarrow>
             Some (t\<lparr>utc_offset :=
                       Some ((if s ! 19 = CHR ''-'' then - 1 else 1) * int (60 * hh + mm))\<rparr>)
         | _ \<Rightarrow> None)
      else None)"

definition read_date :: "json \<Rightarrow> timestamp option" where
  "read_date v =
     (case v of
        JStr s \<Rightarrow>
          if length s = 8 then compact_date s
          else if length s = 25 then iso_date s
          else None
      | _ \<Rightarrow> None)"

text \<open>
  A column whose dates have two different UTC offsets is refused with \<open>ValueError\<close>
  (pandas asks for \<^verbatim>\<open>utc=True\<close> there); any other column is read value by value.
\<close>

definition offsets :: "timestamp option list \<Rightarrow> int list" where
  "offsets ts =
     remdups (List.map_filter (\<lambda>t. case t of None \<Rightarrow> None | Some x \<Rightarrow> utc_offset x) ts)"

definition scenario_to_datetime :: "json list \<Rightarrow> exn + (json \<Rightarrow> timestamp option)" where
  "scenario_to_datetime column =
     (if length (offsets (map read_date column)) \<le> 1 then Inr read_date else Inl ValueError)"

text \<open>
  The date column of concatenated frames stays datetime-typed when all its
  timestamps have the same UTC offset, or none has one; a column that mixes
  timestamps with and without time zone is a column of plain objects.
\<close>

definition one_zone :: "timestamp option row list list \<Rightarrow> bool" where
  "one_zone frames =
     (length (remdups (List.map_filter (\<lambda>r. map_option utc_offset (date r)) (concat frames)))
      \<le> 1)"

definition scenario_pandas :: pandas where
  "scenario_pandas = \<lparr>to_datetime = scenario_to_datetime, datetimelike = one_zone\<rparr>"

text \<open>
  \<^verbatim>\<open>time.sleep(backoff ** attempt)\<close> for a backoff that is a number: the duration is
  the power; a negative duration is refused with \<open>ValueError\<close>, one of \<open>2 ^ 63\<close>
  nanoseconds or more with \<open>OverflowError\<close>. Rounding is ignored.
\<close>

definition sleep_pow :: "real \<Rightarrow> int \<Rightarrow> exn option" where
  "sleep_pow backoff attempt =
     (let secs = backoff ^ nat attempt
      in if secs < 0 then Some ValueError
         else if 2 ^ 63 \<le> secs * 10 ^ 9 then Some OverflowError
         else None)"

section \<open>Vocabulary of the properties\<close>

subsection \<open>Raw regulatory entries, and the records the specification expects\<close>

text \<open>
  The shape of a raw regulatory entry: an object whose \<open>submissions\<close>, when present,
  iterates to objects.
\<close>

definition is_obj :: "json \<Rightarrow> bool" where
  "is_obj v = (case v of JObj kvs \<Rightarrow> True | _ \<Rightarrow> False)"

definition wf_fda_entry :: "json \<Rightarrow> bool" where
  "wf_fda_entry entry =
     (case entry of
        JObj kvs \<Rightarrow>
          (case map_of kvs ''submissions'' of
             None \<Rightarrow> True
           | Some v \<Rightarrow> (case iterate v of Inl e \<Rightarrow> False | Inr subs \<Rightarrow> list_all is_obj subs))
      | _ \<Rightarrow> False)"

text \<open>
  A value that counts as empty: null, false, zero, the empty string, list or object.
\<close>

fun empty_value :: "json \<Rightarrow> bool" where
  "empty_value JNull = True"
| "empty_value (JBool b) = (\<not> b)"
| "empty_value (JInt i) = (i = 0)"
| "empty_value (JFloat r) = (r = 0)"
| "empty_value (JStr s) = (s = [])"
| "empty_value (JList xs) = (xs = [])"
| "empty_value (JObj kvs) = (kvs = [])"

text \<open>
  The records in the specification's words: one record per nested submission that
  carries a non-empty date, in the order of the entries and of their submissions, the
  sponsor taken from the parent entry, a missing field being null.
\<close>

definition field :: "json \<Rightarrow> string \<Rightarrow> json" where
  "field v k =
     (case v of
        JObj kvs \<Rightarrow> (case map_of kvs k of None \<Rightarrow> JNull | Some x \<Rightarrow> x)
      | _ \<Rightarrow> JNull)"

definition submissions_of :: "json \<Rightarrow> json list" where
  "submissions_of entry =
     (case entry of
        JObj kvs \<Rightarrow>
          (case map_of kvs ''submissions'' of
             None \<Rightarrow> []
           | Some v \<Rightarrow> (case iterate v of Inl e \<Rightarrow> [] | Inr subs \<Rightarrow> subs))
      | _ \<Rightarrow> [])"

definition regulatory_record :: "json \<Rightarrow> json \<Rightarrow> json row" where
  "regulatory_record sponsor_name sub =
     \<lparr>source = ''FDA'', sponsor = sponsor_name, date = field sub ''submission_date'',
      phase = JNull, trial_id = JNull, submission_type = field sub ''submission_type'',
      submission_class = field sub ''submission_class_code''\<rparr>"

definition dated_submissions :: "json list \<Rightarrow> json row list" where
  "dated_submissions entries =
     concat (map (\<lambda>entry. map (regulatory_record (field entry ''sponsor_name''))
                            (filter (\<lambda>sub. \<not> empty_value (field sub ''submission_date''))
                                    (submissions_of entry)))
                 entries)"

text \<open>A frame without \<open>NaT\<close>.\<close>

definition dated :: "timestamp option row list \<Rightarrow> bool" where
  "dated df = list_all (\<lambda>r. date r \<noteq> None) df"

subsection \<open>Attempts\<close>

text \<open>
  An attempt that the retry loops treat as a transient failure, and the exception
  they record for it as \<open>last_exception\<close>.
\<close>

definition failing :: "outcome \<Rightarrow> bool" where
  "failing out =
     (case out of Raises e \<Rightarrow> is_request_exception e | Response status body \<Rightarrow> status \<noteq> 200)"

definition cause_of :: "outcome \<Rightarrow> exn" where
  "cause_of out = (case out of Raises e \<Rightarrow> e | Response status body \<Rightarrow> HTTPError status)"

text \<open>
  The key whose absence makes \<^verbatim>\<open>data["StudyFieldsResponse"]["StudyFields"]\<close> raise
  \<open>KeyError\<close> on an object.
\<close>

definition missing_key :: "(string \<times> json) list \<Rightarrow> string option" where
  "missing_key kvs =
     (case map_of kvs ''StudyFieldsResponse'' of
        None \<Rightarrow> Some ''StudyFieldsResponse''
      | Some (JObj inner) \<Rightarrow>
          (case map_of inner ''StudyFields'' of
             None \<Rightarrow> Some ''StudyFields''
           | Some v \<Rightarrow> None)
      | Some _ \<Rightarrow> None)"

subsection \<open>Counting and combining\<close>

text \<open>
  The number of rows of a table that are dated in the month \<open>m\<close> of the year \<open>y\<close>
  and come from the source \<open>s\<close>.
\<close>

definition rows_of :: "timestamp option row list \<Rightarrow> int \<Rightarrow> nat \<Rightarrow> string \<Rightarrow> nat" where
  "rows_of table y m s =
     length (filter (\<lambda>r. case date r of
                           None \<Rightarrow> False
                         | Some t \<Rightarrow> year t = y \<and> month t = m \<and> source r = s)
                    table)"

text \<open>
  The frames of the trial phases whose fetch and normalization both succeeded, in
  the order of the phases, on the network state each fetch finds.
\<close>

fun trial_frames ::
  "pandas \<Rightarrow> sleeps \<Rightarrow> net \<Rightarrow> string \<Rightarrow> string list \<Rightarrow> request list
   \<Rightarrow> timestamp option row list list" where
  "trial_frames pd sleep net term [] sent = []"
| "trial_frames pd sleep net term (ph # phases) sent =
     (case fetch_clinical_trials sleep net term ph 200 2 sent of
        (r, sent') \<Rightarrow>
          (case r of
             Inl e \<Rightarrow> []
           | Inr trials_raw \<Rightarrow>
               (case parse_trials pd trials_raw (JStr ph) of
                  Inl e \<Rightarrow> []
                | Inr trials \<Rightarrow> [trials]))
          @ trial_frames pd sleep net term phases sent')"

subsection \<open>Scenarios\<close>

text \<open>
  The regulatory entry of the specification's scenario; an entry whose submissions
  have an empty date, no date, the date 0, an unreadable date and a good one; an entry
  whose two dates have different UTC offsets.
\<close>

definition acme_entry :: json where
  "acme_entry =
     JObj [(''sponsor_name'', JStr ''Acme''),
           (''submissions'',
            JList [JObj [(''submission_date'', JStr ''20230115''),
                         (''submission_type'', JStr ''ORIG'')]])]"

definition busy_entry :: json where
  "busy_entry =
     JObj [(''sponsor_name'', JStr ''Beta''),
           (''submissions'',
            JList [JObj [(''submission_date'', JStr ''''), (''submission_type'', JStr ''SUPPL'')],
                   JObj [(''submission_type'', JStr ''SUPPL'')],
                   JObj [(''submission_date'', JInt 0)],
                   JObj [(''submission_date'', JStr ''pending'')],
                   JObj [(''submission_date'', JStr ''20230220''),
                         (''submission_class_code'', JStr ''TYPE 1'')]])]"

definition two_zones_entry :: json where
  "two_zones_entry =
     JObj [(''sponsor_name'', JStr ''Gamma''),
           (''submissions'',
            JList [JObj [(''submission_date'', JStr ''2024-03-01T00:00:00+01:00'')],
                   JObj [(''submission_date'', JStr ''2024-03-02T00:00:00+00:00'')]])]"

text \<open>
  The combined table of the specification's scenario: January 2023 with two FDA
  rows and one trial, February 2023 with two trials. A second table that spans two
  years, and the two frames of a third whose trial dates carry a UTC offset.
\<close>

definition scenario_row :: "string \<Rightarrow> int \<Rightarrow> nat \<Rightarrow> nat \<Rightarrow> int option \<Rightarrow> timestamp option row" where
  "scenario_row src y m d z =
     \<lparr>source = src, sponsor = JNull,
      date = Some \<lparr>year = y, month = m, day = d, utc_offset = z\<rparr>,
      phase = JNull, trial_id = JNull, submission_type = JNull, submission_class = JNull\<rparr>"

definition scenario_table :: "timestamp option row list" where
  "scenario_table =
     [scenario_row ''FDA'' 2023 1 5 None, scenario_row ''FDA'' 2023 1 20 None,
      scenario_row ''ClinicalTrials.gov'' 2023 1 9 None,
      scenario_row ''ClinicalTrials.gov'' 2023 2 1 None,
      scenario_row ''ClinicalTrials.gov'' 2023 2 28 None]"

definition two_years_table :: "timestamp option row list" where
  "two_years_table =
     [scenario_row ''FDA'' 2023 12 1 None, scenario_row ''ClinicalTrials.gov'' 2023 12 15 None,
      scenario_row ''FDA'' 2022 12 31 None, scenario_row ''FDA'' 2023 3 10 None,
      scenario_row ''FDA'' 2023 12 24 None]"

definition naive_frame :: "timestamp option row list" where
  "naive_frame = [scenario_row ''FDA'' 2023 1 5 None]"

definition utc_frame :: "timestamp option row list" where
  "utc_frame = [scenario_row ''ClinicalTrials.gov'' 2023 1 9 (Some 0)]"

text \<open>
  Networks, telling the FDA requests (no parameters) from the registry's: one where
  the FDA endpoint answers 500 and the registry delivers one study; one where the FDA
  endpoint delivers two submissions, the second with an unreadable date, and the
  registry answers 503; one where both deliver; one where both deliver, the registry
  with a date in UTC.
\<close>

definition the_study :: json where
  "the_study =
     JObj [(''NCTId'', JList [JStr ''NCT01'']), (''Sponsors'', JList [JStr ''Acme'']),
           (''CompletionDate'', JList [JStr ''20240301''])]"

definition one_study :: json where
  "one_study = JObj [(''StudyFieldsResponse'', JObj [(''StudyFields'', JList [the_study])])]"

definition fda_down :: net where
  "fda_down n q =
     (if req_params q = [] then Response 500 (Inl JSONDecodeError)
      else Response 200 (Inr one_study))"

definition mixed_dates :: net where
  "mixed_dates n q =
     (if req_params q = []
      then Response 200
             (Inr (JObj [(''results'',
                          JList [JObj [(''sponsor_name'', JStr ''Acme''),
                                       (''submissions'',
                                        JList [JObj [(''submission_date'', JStr ''20230115'')],
                                               JObj [(''submission_date'', JStr ''pending'')]])]])]))
      else Response 503 (Inl JSONDecodeError))"

definition both_deliver :: net where
  "both_deliver n q =
     (if req_params q = [] then Response 200 (Inr (JObj [(''results'', JList [acme_entry])]))
      else Response 200 (Inr one_study))"

definition utc_registry :: net where
  "utc_registry n q =
     (if req_params q = [] then Response 200 (Inr (JObj [(''results'', JList [acme_entry])]))
      else Response 200
             (Inr (JObj [(''StudyFieldsResponse'',
                         JObj [(''StudyFields'',
                                JList [JObj [(''NCTId'', JList [JStr ''NCT02'']),
                                             (''CompletionDate'',
                                              JList [JStr ''2024-03-01T00:00:00+00:00''])]])])])))"

section \<open>Properties\<close>

subsection \<open>Normalizers\<close>

lemma truthy_iff: "truthy v = (\<not> empty_value v)"
  by (cases v) simp_all

lemma dict_get_field: "is_obj v \<Longrightarrow> dict_get v k JNull = Inr (field v k)"
  by (cases v) (simp_all add: is_obj_def field_def)

lemma fda_submissions_wf:
  "list_all is_obj subs \<Longrightarrow>
   fda_submissions sp subs =
     Inr (map (regulatory_record sp)
              (filter (\<lambda>sub. \<not> empty_value (field sub ''submission_date'')) subs))"
  by (induction subs) (simp_all add: dict_get_field regulatory_record_def truthy_iff)

lemma fda_entries_wf:
  "list_all wf_fda_entry entries \<Longrightarrow> fda_entries entries = Inr (dated_submissions entries)"
proof (induction entries)
  case Nil
  show ?case by (simp add: dated_submissions_def)
next
  case (Cons entry entries)
  then obtain kvs where e: "entry = JObj kvs"
    by (cases entry) (simp_all add: wf_fda_entry_def)
  from Cons have rest: "fda_entries entries = Inr (dated_submissions entries)" by simp
  show ?case
  proof (cases "map_of kvs ''submissions''")
    case None
    with e rest show ?thesis
      by (simp add: dated_submissions_def submissions_of_def field_def)
  next
    case (Some v)
    with Cons.prems e obtain subs where it: "iterate v = Inr subs" and all: "list_all is_obj subs"
      by (auto simp: wf_fda_entry_def split: sum.splits)
    with e Some rest show ?thesis
      by (simp add: fda_submissions_wf dated_submissions_def submissions_of_def field_def)
  qed
qed

lemma dropna_map_filter:
  "dropna (map (\<lambda>r. set_date r (f (date r))) records) =
     List.map_filter
       (\<lambda>r. case f (date r) of None \<Rightarrow> None | Some t \<Rightarrow> Some (set_date r (Some t)))
       records"
  by (induction records) (auto simp: dropna_def map_filter_simps set_date_def split: option.splits)

text \<open>
  Claim C7, as the code has it. For raw regulatory entries of the documented shape,
  whose date column (if there is any dated submission) \<^verbatim>\<open>pd.to_datetime\<close> reads,
  \<^verbatim>\<open>parse_fda\<close> returns, in order, one
  row for each nested submission whose \<open>submission_date\<close> is non-empty and is read
  as a date; the sponsor of the row is the \<open>sponsor_name\<close> of the parent entry
  (\<open>dated_submissions\<close> attaches it). A submission with an empty date, or with a date
  that is read as \<open>NaT\<close>, gives no row.
\<close>

theorem parse_fda_one_record_per_parsed_submission:
  assumes "list_all wf_fda_entry entries"
    and "dated_submissions entries = []
         \<or> to_datetime pd (map date (dated_submissions entries)) = Inr reading"
  shows "parse_fda pd (JList entries) =
     Inr (List.map_filter
            (\<lambda>r. case reading (date r) of
                   None \<Rightarrow> None
                 | Some t \<Rightarrow> Some (set_date r (Some t)))
            (dated_submissions entries))"
proof (cases "dated_submissions entries = []")
  case True
  with assms(1) show ?thesis
    by (simp add: parse_fda_def fda_entries_wf to_frame_def map_filter_simps)
next
  case False
  with assms show ?thesis
    by (simp add: parse_fda_def fda_entries_wf to_frame_def dropna_map_filter)
qed

text \<open>
  The scenario of the specification: the Acme entry gives exactly one row, dated
  2023-01-15, of type ORIG. Then three entries: an entry without submissions adds
  nothing, and of the five submissions of the third entry only the last gives a row
  (an empty date, no date and the date 0 are not non-empty; \<open>pending\<close> is no date).
\<close>

theorem parse_fda_one_record_per_parsed_submission_witness:
  "parse_fda scenario_pandas (JList [acme_entry]) =
     Inr [\<lparr>source = ''FDA'', sponsor = JStr ''Acme'',
           date = Some \<lparr>year = 2023, month = 1, day = 15, utc_offset = None\<rparr>,
           phase = JNull, trial_id = JNull, submission_type = JStr ''ORIG'',
           submission_class = JNull\<rparr>]
   \<and> parse_fda scenario_pandas
       (JList [acme_entry, JObj [(''sponsor_name'', JStr ''Idle'')], busy_entry]) =
     Inr [\<lparr>source = ''FDA'', sponsor = JStr ''Acme'',
           date = Some \<lparr>year = 2023, month = 1, day = 15, utc_offset = None\<rparr>,
           phase = JNull, trial_id = JNull, submission_type = JStr ''ORIG'',
           submission_class = JNull\<rparr>,
          \<lparr>source = ''FDA'', sponsor = JStr ''Beta'',
           date = Some \<lparr>year = 2023, month = 2, day = 20, utc_offset = None\<rparr>,
           phase = JNull, trial_id = JNull, submission_type = JNull,
           submission_class = JStr ''TYPE 1''\<rparr>]"
  using parse_fda_one_record_per_parsed_submission
          [of "[acme_entry]" scenario_pandas read_date]
        parse_fda_one_record_per_parsed_submission
          [of "[acme_entry, JObj [(''sponsor_name'', JStr ''Idle'')], busy_entry]"
              scenario_pandas read_date]
  by (simp add: acme_entry_def busy_entry_def wf_fda_entry_def is_obj_def
        dated_submissions_def submissions_of_def field_def regulatory_record_def
        scenario_pandas_def scenario_to_datetime_def offsets_def read_date_def
        map_filter_simps set_date_def compact_date_def digit_of_def days_in_month_def)

text \<open>
  One record per submission with a non-empty date does not hold as it stands: the
  date \<open>pending\<close> is non-empty, yet the frame is empty; a submission that is not an
  object makes \<^verbatim>\<open>parse_fda\<close> raise \<open>AttributeError\<close>; and two dates with different
  UTC offsets make \<^verbatim>\<open>pd.to_datetime\<close> raise \<open>ValueError\<close>.
\<close>

theorem parse_fda_undated_counterexample:
  "length (dated_submissions
             [JObj [(''sponsor_name'', JStr ''Acme''),
                    (''submissions'', JList [JObj [(''submission_date'', JStr ''pending'')]])]]) = 1
   \<and> parse_fda scenario_pandas
       (JList [JObj [(''sponsor_name'', JStr ''Acme''),
                     (''submissions'', JList [JObj [(''submission_date'', JStr ''pending'')]])]])
       = Inr []
   \<and> parse_fda scenario_pandas
       (JList [JObj [(''sponsor_name'', JStr ''Acme''),
                     (''submissions'', JList [JStr ''20230115''])]])
       = Inl AttributeError
   \<and> parse_fda scenario_pandas (JList [two_zones_entry]) = Inl ValueError"
  by (simp add: dated_submissions_def submissions_of_def field_def parse_fda_def
        two_zones_entry_def to_frame_def dropna_def set_date_def
        scenario_pandas_def scenario_to_datetime_def offsets_def read_date_def
        map_filter_simps compact_date_def iso_date_def digit_of_def days_in_month_def)

text \<open>
  Claim C4 on a trial whose \<open>CompletionDate\<close> is the empty array (the registry
  gives an array for every field). \<^verbatim>\<open>trial.get("CompletionDate", [""])[0]\<close> raises
  \<open>IndexError\<close>: the default \<^verbatim>\<open>[""]\<close> covers the missing key only. A trial without
  the key, or with the blank value, is left out without an error, whatever pandas
  does.
\<close>

theorem parse_trials_raises_on_empty_array:
  "parse_trials pd
     (JList [JObj [(''NCTId'', JList [JStr ''NCT01'']), (''Sponsors'', JList [JStr ''Acme'']),
                   (''CompletionDate'', JList [])]]) ph = Inl IndexError
   \<and> parse_trials pd
       (JList [JObj [(''NCTId'', JList [JStr ''NCT01'']), (''Sponsors'', JList [JStr ''Acme''])]])
       ph = Inr []
   \<and> parse_trials pd
       (JList [JObj [(''NCTId'', JList [JStr ''NCT01'']), (''Sponsors'', JList [JStr ''Acme'']),
                     (''CompletionDate'', JList [JStr ''''])]]) ph = Inr []"
  by (simp add: parse_trials_def first_of_def to_frame_def)

subsection \<open>Rows without a date\<close>

lemma to_frame_dated: "to_frame pd records = Inr df \<Longrightarrow> dated df"
  by (auto simp: dated_def to_frame_def dropna_def list_all_iff split: if_splits sum.splits)

lemma parse_fda_dated: "parse_fda pd data = Inr df \<Longrightarrow> dated df"
  by (auto simp: parse_fda_def split: sum.splits dest: to_frame_dated)

lemma parse_trials_dated: "parse_trials pd data ph = Inr df \<Longrightarrow> dated df"
  by (auto simp: parse_trials_def split: sum.splits dest: to_frame_dated)

lemma load_fda_dated: "dated (fst (load_fda pd sleep net fda_limit sent))"
  by (auto simp: load_fda_def dated_def split: prod.splits sum.splits dest: parse_fda_dated)

lemma load_trials_dated:
  "list_all dated trials_dfs \<Longrightarrow>
   list_all dated (fst (load_trials pd sleep net term phases trials_dfs errs sent))"
proof (induction phases arbitrary: trials_dfs errs sent)
  case Nil
  then show ?case by simp
next
  case (Cons ph phases)
  show ?case
  proof (cases "fetch_clinical_trials sleep net term ph 200 2 sent")
    case (Pair r sent')
    show ?thesis
    proof (cases r)
      case (Inl e)
      with Pair Cons show ?thesis by simp
    next
      case (Inr trials_raw)
      show ?thesis
      proof (cases "parse_trials pd trials_raw (JStr ph)")
        case (Inl e)
        with Pair Inr Cons show ?thesis by simp
      next
        case inner: (Inr trials)
        then have "dated trials" by (rule parse_trials_dated)
        with Cons.prems have "list_all dated (trials_dfs @ [trials])" by simp
        from Cons.IH [OF this] Pair Inr inner show ?thesis by simp
      qed
    qed
  qed
qed

lemma app_load_trials_dated:
  "list_all dated trials_dfs \<Longrightarrow>
   app_load_trials pd net term phases trials_dfs sent = Inr (dfs, sent') \<Longrightarrow>
   list_all dated dfs"
proof (induction phases arbitrary: trials_dfs sent)
  case Nil
  then show ?case by simp
next
  case (Cons ph phases)
  from Cons.prems(2) obtain trials_raw sent1 trials where
    f: "app_fetch_clinical_trials net term ph 200 sent = (Inr trials_raw, sent1)"
    and p: "parse_trials pd trials_raw (JStr ph) = Inr trials"
    and rest: "app_load_trials pd net term phases (trials_dfs @ [trials]) sent1 = Inr (dfs, sent')"
    by (auto split: prod.splits sum.splits)
  from p have "dated trials" by (rule parse_trials_dated)
  with Cons.prems(1) have "list_all dated (trials_dfs @ [trials])" by simp
  from Cons.IH [OF this rest] show ?case .
qed

lemma combine_concat: "combine fda_df trials_dfs = fda_df @ concat trials_dfs"
  by (simp add: combine_def)

lemma app_combine_concat: "app_combine fda_df trials_dfs = fda_df @ concat trials_dfs"
  by (simp add: app_combine_def)

lemma combined_present: "present pd frames table errs sent = Inr d \<Longrightarrow> combined d = table"
  by (auto simp: present_def split: if_splits)

lemma dated_append_concat: "dated fda_df \<Longrightarrow> list_all dated dfs \<Longrightarrow> dated (fda_df @ concat dfs)"
  by (induction dfs) (auto simp: dated_def)

lemma gather_patched_dated:
  "gather_patched pd sleep net term phases fda_limit = (fda_df, trials_dfs, errs, sent) \<Longrightarrow>
   dated (combine fda_df trials_dfs)"
proof -
  assume g: "gather_patched pd sleep net term phases fda_limit = (fda_df, trials_dfs, errs, sent)"
  obtain f0 e0 s0 where f: "load_fda pd sleep net fda_limit [] = (f0, e0, s0)"
    by (cases "load_fda pd sleep net fda_limit []") auto
  obtain dfs e1 s1 where t: "load_trials pd sleep net term phases [] e0 s0 = (dfs, e1, s1)"
    by (cases "load_trials pd sleep net term phases [] e0 s0") auto
  from load_fda_dated [of pd sleep net fda_limit "[]"] f have a: "dated f0" by simp
  from load_trials_dated [of "[]" pd sleep net "term" phases e0 s0] t have b: "list_all dated dfs"
    by simp
  from g f t have "fda_df = f0" "trials_dfs = dfs" by (simp_all add: gather_patched_def)
  with a b show ?thesis by (simp add: combine_concat dated_append_concat)
qed

lemma run_patched_dated:
  "run_patched pd sleep net term phases fda_limit = Inr d \<Longrightarrow> dated (combined d)"
proof -
  assume run: "run_patched pd sleep net term phases fda_limit = Inr d"
  obtain fda_df trials_dfs errs sent where
    g: "gather_patched pd sleep net term phases fda_limit = (fda_df, trials_dfs, errs, sent)"
    by (cases "gather_patched pd sleep net term phases fda_limit") auto
  with run have "present pd (fda_df # trials_dfs) (combine fda_df trials_dfs) errs sent = Inr d"
    by (simp add: run_patched_def)
  then have "combined d = combine fda_df trials_dfs" by (rule combined_present)
  with gather_patched_dated [OF g] show ?thesis by simp
qed

lemma run_app_dated:
  "run_app pd net term phases fda_limit = Inr d \<Longrightarrow> dated (combined d)"
proof -
  assume run: "run_app pd net term phases fda_limit = Inr d"
  then obtain fda_raw sent fda_df dfs sent' where
    p: "parse_fda pd fda_raw = Inr fda_df"
    and t: "app_load_trials pd net term phases [] sent = Inr (dfs, sent')"
    and d: "present pd (fda_df # dfs) (app_combine fda_df dfs) [] sent' = Inr d"
    by (auto simp: run_app_def split: prod.splits sum.splits)
  from p have a: "dated fda_df" by (rule parse_fda_dated)
  from app_load_trials_dated [OF _ t] have b: "list_all dated dfs" by simp
  from combined_present [OF d] a b show ?thesis
    by (simp add: app_combine_concat dated_append_concat)
qed

lemma groupby_size_total: "sum_list (map snd (groupby_size table)) = length (group_keys table)"
proof -
  let ?keys = "group_keys table"
  have "sum_list (map snd (groupby_size table)) = sum_list (map (count_list ?keys) (sort (remdups ?keys)))"
    by (simp add: groupby_size_def Let_def comp_def)
  also have "\<dots> = sum (count_list ?keys) (set (sort (remdups ?keys)))"
    by (rule sum_list_distinct_conv_sum_set) simp
  also have "\<dots> = length ?keys"
    by (simp add: sum_count_set)
  finally show ?thesis .
qed

lemma group_keys_undated:
  "length (group_keys table) = length (filter (\<lambda>r. date r \<noteq> None) table)"
  by (induction table) (auto simp: group_keys_def map_filter_simps to_period_M_def)

lemma default_attempts: "[1..2] = [1, 2::int]" "[1..3] = [1, 2, 3::int]"
  by (simp_all add: upto.simps)

lemma default_waits: "1 \<le> a \<Longrightarrow> a \<le> 56 \<Longrightarrow> sleep_pow (3 / 2) a = None"
proof -
  assume "1 \<le> a" "a \<le> 56"
  then have n: "nat a \<le> 56" by simp
  have "(3 / 2 :: real) ^ nat a \<le> (3 / 2) ^ 56"
    using n by (intro power_increasing) simp_all
  moreover have "(3 / 2 :: real) ^ 56 * 10 ^ 9 < 2 ^ 63"
    by (simp add: power_divide)
  ultimately have "(3 / 2 :: real) ^ nat a * 10 ^ 9 < 2 ^ 63"
    by (smt (verit) mult_right_mono zero_le_numeral zero_le_power)
  moreover have "0 \<le> (3 / 2 :: real) ^ nat a" by simp
  ultimately show ?thesis by (simp add: sleep_pow_def Let_def not_le [symmetric])
qed

text \<open>
  Claim C6. Every row of the combined table has a date: the table that
  \<^verbatim>\<open>app_patched.py\<close> (and \<^verbatim>\<open>pharma_dashboard_v1.py\<close>) puts together, for every network,
  every behaviour of pandas and of the waits and every input, and the table of every
  run of either driver that gets to show one. The normalizers themselves return
  dated rows only, and the monthly counts add up to the number of dated rows: a row
  without a date is neither kept nor counted.
\<close>

theorem combined_rows_have_dates:
  "(case gather_patched pd sleep net term phases fda_limit of
      (fda_df, trials_dfs, errs, sent) \<Rightarrow> dated (combine fda_df trials_dfs))
   \<and> (case run_patched pd sleep net term phases fda_limit of
        Inl e \<Rightarrow> True
      | Inr d \<Rightarrow> dated (combined d))
   \<and> (case run_app pd net term phases fda_limit of
        Inl e \<Rightarrow> True
      | Inr d \<Rightarrow> dated (combined d))
   \<and> (case parse_fda pd data of Inl e \<Rightarrow> True | Inr df \<Rightarrow> dated df)
   \<and> (case parse_trials pd data ph of Inl e \<Rightarrow> True | Inr df \<Rightarrow> dated df)
   \<and> sum_list (map snd (groupby_size table)) = length (filter (\<lambda>r. date r \<noteq> None) table)"
  by (auto simp: groupby_size_total group_keys_undated
        split: sum.splits prod.splits
        dest: run_app_dated run_patched_dated parse_fda_dated parse_trials_dated
          gather_patched_dated)

text \<open>
  A run in which one of two submissions has an unreadable date and the registry is
  down: one row is kept. A run of each driver in which both sources deliver: the FDA
  row, then the trial.
\<close>

theorem combined_rows_have_dates_witness:
  "(\<exists>d. run_patched scenario_pandas sleep_pow mixed_dates ''oncology'' [''Phase 2''] 50 = Inr d
        \<and> dated (combined d)
        \<and> failures d = [RuntimeError trials_failed (Some (HTTPError 503))]
        \<and> length (requests d) = 3
        \<and> combined d =
            [\<lparr>source = ''FDA'', sponsor = JStr ''Acme'',
              date = Some \<lparr>year = 2023, month = 1, day = 15, utc_offset = None\<rparr>,
              phase = JNull, trial_id = JNull, submission_type = JNull,
              submission_class = JNull\<rparr>])
   \<and> (\<exists>d. run_patched scenario_pandas sleep_pow both_deliver ''oncology'' [''Phase 3''] 50 = Inr d
        \<and> dated (combined d)
        \<and> combined d =
            [\<lparr>source = ''FDA'', sponsor = JStr ''Acme'',
              date = Some \<lparr>year = 2023, month = 1, day = 15, utc_offset = None\<rparr>,
              phase = JNull, trial_id = JNull, submission_type = JStr ''ORIG'',
              submission_class = JNull\<rparr>,
             \<lparr>source = ''ClinicalTrials.gov'', sponsor = JStr ''Acme'',
              date = Some \<lparr>year = 2024, month = 3, day = 1, utc_offset = None\<rparr>,
              phase = JStr ''Phase 3'', trial_id = JStr ''NCT01'', submission_type = JNull,
              submission_class = JNull\<rparr>])
   \<and> (\<exists>d. run_app scenario_pandas both_deliver ''oncology'' [''Phase 3''] 200 = Inr d
        \<and> dated (combined d)
        \<and> combined d =
            [\<lparr>source = ''FDA'', sponsor = JStr ''Acme'',
              date = Some \<lparr>year = 2023, month = 1, day = 15, utc_offset = None\<rparr>,
              phase = JNull, trial_id = JNull, submission_type = JStr ''ORIG'',
              submission_class = JNull\<rparr>,
             \<lparr>source = ''ClinicalTrials.gov'', sponsor = JStr ''Acme'',
              date = Some \<lparr>year = 2024, month = 3, day = 1, utc_offset = None\<rparr>,
              phase = JStr ''Phase 3'', trial_id = JStr ''NCT01'', submission_type = JNull,
              submission_class = JNull\<rparr>])"
  using combined_rows_have_dates
    [of scenario_pandas sleep_pow mixed_dates "''oncology''" "[''Phase 2'']" 50]
    combined_rows_have_dates
    [of scenario_pandas sleep_pow both_deliver "''oncology''" "[''Phase 3'']" 50]
    combined_rows_have_dates
    [of scenario_pandas _ both_deliver "''oncology''" "[''Phase 3'']" 200]
  by (simp add: mixed_dates_def both_deliver_def acme_entry_def one_study_def the_study_def
        run_patched_def gather_patched_def load_fda_def fetch_fda_approvals_def fda_urls_def
        fda_request_def fda_attempt_def handle_exn_def fetch_clinical_trials_def
        trials_request_def trials_params_def trials_attempt_def study_fields_def
        requests_get_def parse_fda_def parse_trials_def first_of_def
        run_app_def app_fetch_fda_approvals_def app_fetch_clinical_trials_def
        app_fda_request_def app_trials_request_def raise_for_status_def app_combine_def
        to_frame_def dropna_def set_date_def scenario_pandas_def scenario_to_datetime_def
        offsets_def read_date_def one_zone_def map_filter_simps
        compact_date_def digit_of_def days_in_month_def combine_def present_def
        default_attempts default_waits)
subsection \<open>Monthly counts\<close>

lemma count_group_keys:
  "count_list (group_keys table) ((y, m), s) = rows_of table y m s"
  by (induction table)
     (auto simp: group_keys_def rows_of_def map_filter_simps to_period_M_def split: option.splits)

lemma map_of_groupby_size:
  "map_of (groupby_size table) k =
     (if count_list (group_keys table) k = 0 then None
      else Some (count_list (group_keys table) k))"
proof -
  have "map_of (map (\<lambda>k. (k, f k)) ks) k = (if k \<in> set ks then Some (f k) else None)"
    for f :: "period \<times> string \<Rightarrow> nat" and ks
    by (induction ks) auto
  then show ?thesis
    by (simp add: groupby_size_def Let_def count_list_0_iff)
qed

lemma keys_groupby_size: "map fst (groupby_size table) = sort (remdups (group_keys table))"
  by (simp add: groupby_size_def Let_def comp_def)

lemma sorted_fst: "sorted (ks :: ('a::linorder \<times> 'b::linorder) list) \<Longrightarrow> sorted (map fst ks)"
  by (induction ks) (auto simp: less_eq_prod_def)

text \<open>
  Claim C8, as the code has it. For a non-empty combined table whose date column
  pandas has kept datetime-typed, the script groups by (month, source), the month
  being the pair of the year and the month of the date. The result is in ascending
  order of the pair, so of the month; no pair occurs twice; and the entry of the
  month \<open>m\<close> of the year \<open>y\<close> and the source \<open>s\<close> is the number of rows dated in
  that month of that year from that source, a pair with no row having no entry (the
  zero appears only in the chart table made by \<^verbatim>\<open>unstack(fill_value=0)\<close>).
\<close>

theorem monthly_counts_per_month_and_source:
  assumes "table \<noteq> []" and "datetimelike pd frames"
  shows "\<exists>d. present pd frames table errs sent = Inr d
       \<and> combined d = table
       \<and> monthly d = Some (groupby_size table)
       \<and> sorted (map fst (groupby_size table))
       \<and> distinct (map fst (groupby_size table))
       \<and> sorted (map (\<lambda>kv. fst (fst kv)) (groupby_size table))
       \<and> map_of (groupby_size table) ((y, m), s) =
           (if rows_of table y m s = 0 then None else Some (rows_of table y m s))"
proof -
  let ?d = "\<lparr>combined = table, monthly = Some (groupby_size table),
             chart = Some (unstack (groupby_size table)), failures = errs, requests = sent\<rparr>"
  have a: "present pd frames table errs sent = Inr ?d"
    using assms by (simp add: present_def)
  have b: "sorted (map fst (groupby_size table))"
    by (simp add: keys_groupby_size)
  have c: "distinct (map fst (groupby_size table))"
    by (simp add: keys_groupby_size)
  have "sorted (map fst (map fst (groupby_size table)))"
    using b by (rule sorted_fst)
  then have d: "sorted (map (\<lambda>kv. fst (fst kv)) (groupby_size table))"
    by (simp add: comp_def)
  have e: "map_of (groupby_size table) ((y, m), s) =
           (if rows_of table y m s = 0 then None else Some (rows_of table y m s))"
    by (simp add: map_of_groupby_size count_group_keys)
  from a b c d e show ?thesis by simp
qed

lemma scenario_sizes:
  "groupby_size scenario_table =
     [(((2023, 1), ''ClinicalTrials.gov''), 1), (((2023, 1), ''FDA''), 2),
      (((2023, 2), ''ClinicalTrials.gov''), 2)]"
  "groupby_size two_years_table =
     [(((2022, 12), ''FDA''), 1), (((2023, 3), ''FDA''), 1),
      (((2023, 12), ''ClinicalTrials.gov''), 1), (((2023, 12), ''FDA''), 2)]"
  by (simp_all add: scenario_table_def two_years_table_def scenario_row_def groupby_size_def
        group_keys_def map_filter_simps to_period_M_def less_eq_char_def less_char_def)

text \<open>
  The scenario of the specification: January 2023 with two FDA rows and one trial,
  February 2023 with two trials; there is no entry for (2023-02, FDA). Then a table
  over two years: December 2022 and December 2023 are two months, and March comes
  between them.
\<close>

theorem monthly_counts_per_month_and_source_witness:
  "(\<exists>d. present scenario_pandas [scenario_table] scenario_table [] [] = Inr d
        \<and> monthly d =
            Some [(((2023, 1), ''ClinicalTrials.gov''), 1), (((2023, 1), ''FDA''), 2),
                  (((2023, 2), ''ClinicalTrials.gov''), 2)])
   \<and> map_of (groupby_size scenario_table) ((2023, 2), ''FDA'') = None
   \<and> rows_of scenario_table 2023 2 ''FDA'' = 0
   \<and> (\<exists>d. present scenario_pandas [two_years_table] two_years_table [] [] = Inr d
        \<and> monthly d =
            Some [(((2022, 12), ''FDA''), 1), (((2023, 3), ''FDA''), 1),
                  (((2023, 12), ''ClinicalTrials.gov''), 1), (((2023, 12), ''FDA''), 2)])
   \<and> rows_of two_years_table 2023 12 ''FDA'' = 2
   \<and> rows_of two_years_table 2022 12 ''FDA'' = 1"
proof -
  have ne: "scenario_table \<noteq> []" "two_years_table \<noteq> []"
    by (simp_all add: scenario_table_def two_years_table_def)
  have dt: "datetimelike scenario_pandas [scenario_table]"
    "datetimelike scenario_pandas [two_years_table]"
    by (simp_all add: scenario_pandas_def one_zone_def scenario_table_def two_years_table_def
          scenario_row_def map_filter_simps)
  have z: "rows_of scenario_table 2023 2 ''FDA'' = 0"
    "rows_of two_years_table 2023 12 ''FDA'' = 2" "rows_of two_years_table 2022 12 ''FDA'' = 1"
    by (simp_all add: rows_of_def scenario_table_def two_years_table_def scenario_row_def)
  from monthly_counts_per_month_and_source
         [OF ne(1) dt(1), of "[]" "[]" 2023 2 "''FDA''"]
       monthly_counts_per_month_and_source
         [OF ne(2) dt(2), of "[]" "[]" 2023 12 "''FDA''"] z
  show ?thesis by (auto simp: scenario_sizes)
qed

text \<open>
  Not every non-empty combined table is aggregated. When the FDA dates have no time
  zone and the trial dates are in UTC, the concatenated date column is a column of
  objects and \<^verbatim>\<open>combined["date"].dt\<close> raises \<open>AttributeError\<close>, outside every
  \<^verbatim>\<open>try\<close>: the run of \<^verbatim>\<open>app_patched.py\<close> on such a registry ends there.
\<close>

theorem monthly_counts_mixed_zones_counterexample:
  "naive_frame @ utc_frame \<noteq> []
   \<and> present scenario_pandas [naive_frame, utc_frame] (naive_frame @ utc_frame) [] []
       = Inl AttributeError
   \<and> run_patched scenario_pandas sleep_pow utc_registry ''oncology'' [''Phase 3''] 50
       = Inl AttributeError"
  by (simp add: naive_frame_def utc_frame_def scenario_row_def present_def
        utc_registry_def acme_entry_def
        run_patched_def gather_patched_def load_fda_def fetch_fda_approvals_def fda_urls_def
        fda_request_def fda_attempt_def handle_exn_def fetch_clinical_trials_def
        trials_request_def trials_params_def trials_attempt_def study_fields_def
        requests_get_def parse_fda_def parse_trials_def first_of_def
        to_frame_def dropna_def set_date_def scenario_pandas_def scenario_to_datetime_def
        offsets_def read_date_def one_zone_def map_filter_simps
        compact_date_def iso_date_def digit_of_def days_in_month_def combine_def
        default_attempts)

text \<open>
  Claim C9. When the FDA frame is empty and every trial frame (any number of them,
  also none) is empty, the combined table is empty in both drivers, the script
  builds no monthly table and shows its notice, nothing is raised, whatever pandas
  would make of the date column, and grouping the empty table gives the empty result.
\<close>

theorem empty_inputs_aggregate_to_no_data:
  "combine [] (replicate n []) = [] \<and>
   app_combine [] (replicate n []) = [] \<and>
   present pd frames [] errs sent =
     Inr \<lparr>combined = [], monthly = None, chart = None, failures = errs, requests = sent\<rparr> \<and>
   groupby_size [] = [] \<and> unstack (groupby_size []) = []"
  by (simp add: combine_def app_combine_def present_def groupby_size_def group_keys_def
        map_filter_simps unstack_def)

text \<open>No FDA row and two phases without rows, after one reported failure.\<close>

theorem empty_inputs_aggregate_to_no_data_witness:
  "combine [] [[], []] = [] \<and> app_combine [] [[], []] = []
   \<and> present scenario_pandas [[], [], []] (combine [] [[], []]) [Timeout] [] =
       Inr \<lparr>combined = [], monthly = None, chart = None, failures = [Timeout], requests = []\<rparr>"
  using empty_inputs_aggregate_to_no_data [of 2 scenario_pandas "[[], [], []]" "[Timeout]" "[]"]
  by (simp add: numeral_2_eq_2)

subsection \<open>Retries\<close>

lemma handle_exn_retry: "is_request_exception e \<Longrightarrow> handle_exn e = Retry e"
  by (simp add: handle_exn_def)

lemma fda_attempt_failing: "failing out \<Longrightarrow> fda_attempt out = Retry (cause_of out)"
  by (cases out) (simp_all add: failing_def cause_of_def fda_attempt_def handle_exn_retry)

lemma trials_attempt_failing: "failing out \<Longrightarrow> trials_attempt out = Retry (cause_of out)"
  by (cases out) (simp_all add: failing_def cause_of_def trials_attempt_def handle_exn_retry)

lemma fda_attempts_failing_prefix:
  "\<forall>i<length pre. failing (net (length sent + i) (fda_request u)) \<Longrightarrow>
   \<forall>a\<in>set pre. pause a = None \<Longrightarrow>
   fda_attempts pause net u (pre @ rest) last_exception sent =
     fda_attempts pause net u rest
       (if pre = [] then last_exception
        else Some (cause_of (net (length sent + length pre - 1) (fda_request u))))
       (sent @ replicate (length pre) (fda_request u))"
proof (induction pre arbitrary: last_exception sent)
  case Nil
  show ?case by simp
next
  case (Cons a pre)
  from Cons.prems have now: "failing (net (length sent) (fda_request u))"
    by auto
  from Cons.prems have later:
    "\<forall>i<length pre. failing (net (length (sent @ [fda_request u]) + i) (fda_request u))"
    by auto
  from Cons.prems have waits: "pause a = None" "\<forall>a\<in>set pre. pause a = None"
    by auto
  have step: "fda_attempts pause net u ((a # pre) @ rest) last_exception sent =
        fda_attempts pause net u (pre @ rest)
          (Some (cause_of (net (length sent) (fda_request u)))) (sent @ [fda_request u])"
    using now waits(1) by (simp add: requests_get_def fda_attempt_failing)
  show ?case
    unfolding step Cons.IH [OF later waits(2)]
    by (simp add: replicate_append_same)
qed

lemma trials_attempts_failing_prefix:
  "\<forall>i<length pre. failing (net (length sent + i) q) \<Longrightarrow>
   \<forall>a\<in>set pre. pause a = None \<Longrightarrow>
   trials_attempts pause net q (pre @ rest) last_exception sent =
     trials_attempts pause net q rest
       (if pre = [] then last_exception
        else Some (cause_of (net (length sent + length pre - 1) q)))
       (sent @ replicate (length pre) q)"
proof (induction pre arbitrary: last_exception sent)
  case Nil
  show ?case by simp
next
  case (Cons a pre)
  from Cons.prems have now: "failing (net (length sent) q)"
    by auto
  from Cons.prems have later: "\<forall>i<length pre. failing (net (length (sent @ [q]) + i) q)"
    by auto
  from Cons.prems have waits: "pause a = None" "\<forall>a\<in>set pre. pause a = None"
    by auto
  have step: "trials_attempts pause net q ((a # pre) @ rest) last_exception sent =
        trials_attempts pause net q (pre @ rest) (Some (cause_of (net (length sent) q)))
          (sent @ [q])"
    using now waits(1) by (simp add: requests_get_def trials_attempt_failing)
  show ?case
    unfolding step Cons.IH [OF later waits(2)]
    by (simp add: replicate_append_same)
qed

lemma fda_attempts_all_failing:
  assumes "\<forall>n q. failing (net n q)" and "\<forall>a\<in>set attempts. pause a = None"
  shows "fda_attempts pause net u attempts last_exception sent =
     (None,
      if attempts = [] then last_exception
      else Some (cause_of (net (length sent + length attempts - 1) (fda_request u))),
      sent @ replicate (length attempts) (fda_request u))"
  using assms fda_attempts_failing_prefix [of attempts net sent u pause "[]" last_exception]
  by simp

lemma trials_attempts_all_failing:
  assumes "\<forall>n q. failing (net n q)" and "\<forall>a\<in>set attempts. pause a = None"
  shows "trials_attempts pause net q attempts last_exception sent =
     (None,
      if attempts = [] then last_exception
      else Some (cause_of (net (length sent + length attempts - 1) q)),
      sent @ replicate (length attempts) q)"
  using assms trials_attempts_failing_prefix [of attempts net sent q pause "[]" last_exception]
  by simp

lemma attempts_empty_iff: "[1..retries] = [] \<longleftrightarrow> \<not> 0 < retries"
  by (auto simp: upto.simps)

text \<open>
  Claim C2, as the code has it. When every attempt fails (a status other than 200, a
  timeout or another \<open>RequestException\<close>) and every wait
  \<^verbatim>\<open>time.sleep(backoff ** attempt)\<close> of the attempts 1 to \<open>retries\<close> returns,
  \<^verbatim>\<open>fetch_fda_approvals\<close> raises its \<open>RuntimeError\<close> after exactly \<open>retries * 2\<close>
  requests; \<^verbatim>\<open>fetch_clinical_trials\<close>, whose waits are \<^verbatim>\<open>time.sleep(1.5 ** attempt)\<close>,
  does so after exactly \<open>retries * 1\<close>. The cause of the error is the failure of the
  last request. With \<open>retries \<le> 0\<close> no request is made (\<open>nat retries = 0\<close>) and the
  cause is \<open>None\<close>.
\<close>

theorem exhaustion_after_all_attempts:
  assumes "\<forall>n q. failing (net n q)"
  shows "((\<forall>a. 1 \<le> a \<and> a \<le> retries \<longrightarrow> sleep backoff a = None) \<longrightarrow>
          (\<exists>sent'. fetch_fda_approvals sleep net limit retries backoff sent =
            (Inl (RuntimeError fda_failed
                   (if 0 < retries then Some (cause_of (net (length sent' - 1) (last sent')))
                    else None)), sent')
          \<and> length sent' = length sent + nat retries * 2))
       \<and> ((\<forall>a. 1 \<le> a \<and> a \<le> retries \<longrightarrow> sleep (3 / 2) a = None) \<longrightarrow>
          (\<exists>sent'. fetch_clinical_trials sleep net term ph max_studies retries sent =
            (Inl (RuntimeError trials_failed
                   (if 0 < retries then Some (cause_of (net (length sent' - 1) (last sent')))
                    else None)), sent')
          \<and> length sent' = length sent + nat retries * 1))"
proof (intro conjI impI)
  assume "\<forall>a. 1 \<le> a \<and> a \<le> retries \<longrightarrow> sleep backoff a = None"
  then have waits: "\<forall>a\<in>set [1..retries]. sleep backoff a = None"
    by simp
  let ?n = "nat retries"
  let ?q1 = "fda_request (fda_search_url (clamp_limit limit))"
  let ?q2 = "fda_request (fda_plain_url (clamp_limit limit))"
  let ?out = "sent @ replicate ?n ?q1 @ replicate ?n ?q2"
  have run: "fda_each_url (sleep backoff) net (fda_urls (clamp_limit limit)) retries None sent =
      (None,
       if 0 < retries then Some (cause_of (net (length sent + ?n + ?n - 1) ?q2)) else None,
       ?out)"
    by (simp add: fda_urls_def fda_attempts_all_failing [OF assms waits] attempts_empty_iff)
  have "0 < retries \<Longrightarrow> last ?out = ?q2 \<and> length ?out - 1 = length sent + ?n + ?n - 1"
    by simp
  then have "fetch_fda_approvals sleep net limit retries backoff sent =
      (Inl (RuntimeError fda_failed
             (if 0 < retries then Some (cause_of (net (length ?out - 1) (last ?out))) else None)),
       ?out)"
    unfolding fetch_fda_approvals_def run by simp
  moreover have "length ?out = length sent + ?n * 2" by simp
  ultimately show "\<exists>sent'. fetch_fda_approvals sleep net limit retries backoff sent =
            (Inl (RuntimeError fda_failed
                   (if 0 < retries then Some (cause_of (net (length sent' - 1) (last sent')))
                    else None)), sent')
          \<and> length sent' = length sent + nat retries * 2"
    by blast
next
  assume "\<forall>a. 1 \<le> a \<and> a \<le> retries \<longrightarrow> sleep (3 / 2) a = None"
  then have waits: "\<forall>a\<in>set [1..retries]. sleep (3 / 2) a = None"
    by simp
  let ?n = "nat retries"
  let ?q = "trials_request term ph max_studies"
  let ?out = "sent @ replicate ?n ?q"
  have "0 < retries \<Longrightarrow> last ?out = ?q \<and> length ?out - 1 = length sent + ?n - 1"
    by simp
  then have "fetch_clinical_trials sleep net term ph max_studies retries sent =
      (Inl (RuntimeError trials_failed
             (if 0 < retries then Some (cause_of (net (length ?out - 1) (last ?out))) else None)),
       ?out)"
    unfolding fetch_clinical_trials_def
    by (simp add: trials_attempts_all_failing [OF assms waits] attempts_empty_iff)
  moreover have "length ?out = length sent + ?n * 1" by simp
  ultimately show "\<exists>sent'. fetch_clinical_trials sleep net term ph max_studies retries sent =
            (Inl (RuntimeError trials_failed
                   (if 0 < retries then Some (cause_of (net (length sent' - 1) (last sent')))
                    else None)), sent')
          \<and> length sent' = length sent + nat retries * 1"
    by blast
qed

text \<open>
  A server that always answers 503, with the default backoff 1.5: six requests, then
  two.
\<close>

theorem exhaustion_after_all_attempts_witness:
  "(\<exists>sent'. fetch_fda_approvals sleep_pow (\<lambda>n q. Response 503 (Inr JNull))
               (Some 50) 3 (3 / 2) [] =
          (Inl (RuntimeError fda_failed (Some (HTTPError 503))), sent') \<and> length sent' = 6)
   \<and> (\<exists>sent'. fetch_clinical_trials sleep_pow (\<lambda>n q. Response 503 (Inr JNull))
                 ''oncology'' ''Phase 3'' 200 2 [] =
          (Inl (RuntimeError trials_failed (Some (HTTPError 503))), sent') \<and> length sent' = 2)"
  using exhaustion_after_all_attempts
    [of "\<lambda>n q. Response 503 (Inr JNull)" 3 sleep_pow "3 / 2" "Some 50" "[]"
        "''oncology''" "''Phase 3''" 200]
    exhaustion_after_all_attempts
    [of "\<lambda>n q. Response 503 (Inr JNull)" 2 sleep_pow "3 / 2" "Some 50" "[]"
        "''oncology''" "''Phase 3''" 200]
  by (auto simp: failing_def cause_of_def default_waits)

text \<open>
  Exhaustion after \<open>retries * urlCount\<close> attempts does not hold for every call: with
  the backoff -1.5 the first wait is refused, and the FDA fetch ends with
  \<open>ValueError\<close> after one request; with the default backoff and 60 retries the wait
  of attempt 57 is refused, and the FDA fetch ends with \<open>OverflowError\<close> after 57
  requests, not 120, and so does the trial fetch, not after 60.
\<close>

theorem exhaustion_wait_refused_counterexample:
  "fetch_fda_approvals sleep_pow (\<lambda>n q. Response 503 (Inr JNull)) (Some 50) 3 (- (3 / 2)) []
     = (Inl ValueError, [fda_request (fda_search_url 50)])
   \<and> fst (fetch_fda_approvals sleep_pow (\<lambda>n q. Response 503 (Inr JNull))
            (Some 50) 60 (3 / 2) []) = Inl OverflowError
   \<and> length (snd (fetch_fda_approvals sleep_pow (\<lambda>n q. Response 503 (Inr JNull))
                    (Some 50) 60 (3 / 2) [])) = 57
   \<and> fst (fetch_clinical_trials sleep_pow (\<lambda>n q. Response 503 (Inr JNull))
            ''oncology'' ''Phase 3'' 200 60 []) = Inl OverflowError
   \<and> length (snd (fetch_clinical_trials sleep_pow (\<lambda>n q. Response 503 (Inr JNull))
                    ''oncology'' ''Phase 3'' 200 60 [])) = 57"
proof -
  let ?net = "\<lambda>n q. Response 503 (Inr JNull) :: outcome"
  let ?u = "fda_search_url 50"
  let ?q = "trials_request ''oncology'' ''Phase 3'' 200"
  have a: "fetch_fda_approvals sleep_pow ?net (Some 50) 3 (- (3 / 2)) []
     = (Inl ValueError, [fda_request ?u])"
    by (simp add: fetch_fda_approvals_def fda_urls_def clamp_limit_def default_attempts
          requests_get_def fda_attempt_def sleep_pow_def)
  have split: "[1..60] = [1..56] @ 57 # [58..60]"
    by (simp add: upto_split2 [of 1 57 60] upto_rec2 [of 1 57])
  have waits: "\<forall>a\<in>set [1..56]. sleep_pow (3 / 2) a = None"
    by (simp add: default_waits)
  have over: "sleep_pow (3 / 2) 57 = Some OverflowError"
    by (simp add: sleep_pow_def Let_def power_divide)
  have "fda_attempts (sleep_pow (3 / 2)) ?net ?u [1..60] None [] =
        fda_attempts (sleep_pow (3 / 2)) ?net ?u (57 # [58..60])
          (Some (cause_of (?net (length ([] :: request list) + length [1..56::int] - 1)
                             (fda_request ?u))))
          ([] @ replicate (length [1..56::int]) (fda_request ?u))"
    unfolding split
    using fda_attempts_failing_prefix
            [of "[1..56]" ?net "[]" ?u "sleep_pow (3 / 2)" "57 # [58..60]" None]
          waits
    by (simp add: failing_def)
  also have "\<dots> = (Some (Inl OverflowError), Some (HTTPError 503),
                     replicate 56 (fda_request ?u) @ [fda_request ?u])"
    by (simp add: requests_get_def fda_attempt_def over cause_of_def)
  finally have run: "fda_attempts (sleep_pow (3 / 2)) ?net ?u [1..60] None [] =
        (Some (Inl OverflowError), Some (HTTPError 503),
         replicate 56 (fda_request ?u) @ [fda_request ?u])" .
  have b: "fetch_fda_approvals sleep_pow ?net (Some 50) 60 (3 / 2) []
     = (Inl OverflowError, replicate 56 (fda_request ?u) @ [fda_request ?u])"
    by (simp add: fetch_fda_approvals_def fda_urls_def clamp_limit_def run)
  have "trials_attempts (sleep_pow (3 / 2)) ?net ?q [1..60] None [] =
        trials_attempts (sleep_pow (3 / 2)) ?net ?q (57 # [58..60])
          (Some (cause_of (?net (length ([] :: request list) + length [1..56::int] - 1) ?q)))
          ([] @ replicate (length [1..56::int]) ?q)"
    unfolding split
    using trials_attempts_failing_prefix
            [of "[1..56]" ?net "[]" ?q "sleep_pow (3 / 2)" "57 # [58..60]" None]
          waits
    by (simp add: failing_def)
  also have "\<dots> = (Some (Inl OverflowError), Some (HTTPError 503), replicate 56 ?q @ [?q])"
    by (simp add: requests_get_def trials_attempt_def over cause_of_def)
  finally have runt: "trials_attempts (sleep_pow (3 / 2)) ?net ?q [1..60] None [] =
        (Some (Inl OverflowError), Some (HTTPError 503), replicate 56 ?q @ [?q])" .
  have c: "fetch_clinical_trials sleep_pow ?net ''oncology'' ''Phase 3'' 200 60 []
     = (Inl OverflowError, replicate 56 ?q @ [?q])"
    by (simp add: fetch_clinical_trials_def runt)
  from a b c show ?thesis by simp
qed
lemma fda_attempts_step:
  "fda_attempts pause net u (a # rest) last_exception sent =
     (case fda_attempt (net (length sent) (fda_request u)) of
        Returned results \<Rightarrow> (Some (Inr results), last_exception, sent @ [fda_request u])
      | Raised e \<Rightarrow> (Some (Inl e), last_exception, sent @ [fda_request u])
      | Retry e \<Rightarrow>
          (case pause a of
             Some x \<Rightarrow> (Some (Inl x), last_exception, sent @ [fda_request u])
           | None \<Rightarrow> fda_attempts pause net u rest (Some e) (sent @ [fda_request u])))"
  by (simp add: requests_get_def)

lemma trials_attempts_step:
  "trials_attempts pause net q (a # rest) last_exception sent =
     (case trials_attempt (net (length sent) q) of
        Returned studies \<Rightarrow> (Some (Inr studies), last_exception, sent @ [q])
      | Raised e \<Rightarrow> (Some (Inl e), last_exception, sent @ [q])
      | Retry e \<Rightarrow>
          (case pause a of
             Some x \<Rightarrow> (Some (Inl x), last_exception, sent @ [q])
           | None \<Rightarrow> trials_attempts pause net q rest (Some e) (sent @ [q])))"
  by (simp add: requests_get_def)

lemma first_attempts: "a \<in> set (take j [1..retries]) \<Longrightarrow> 1 \<le> a \<and> a \<le> int j"
proof -
  assume "a \<in> set (take j [1..retries])"
  then obtain i where i: "i < length (take j [1..retries])" "a = take j [1..retries] ! i"
    by (auto simp: in_set_conv_nth)
  then have "i < j" "i < length [1..retries]" by simp_all
  with i(2) have "a = 1 + int i" by simp
  with \<open>i < j\<close> show ?thesis by simp
qed

lemma fda_attempts_decided:
  assumes "j < length attempts"
    and "\<forall>i<j. failing (net (length sent + i) (fda_request u))"
    and "\<forall>a\<in>set (take j attempts). pause a = None"
  shows "fda_attempts pause net u attempts last_exception sent =
     (case fda_attempt (net (length sent + j) (fda_request u)) of
        Returned results \<Rightarrow>
          (Some (Inr results),
           if j = 0 then last_exception
           else Some (cause_of (net (length sent + j - 1) (fda_request u))),
           sent @ replicate (Suc j) (fda_request u))
      | Raised e \<Rightarrow>
          (Some (Inl e),
           if j = 0 then last_exception
           else Some (cause_of (net (length sent + j - 1) (fda_request u))),
           sent @ replicate (Suc j) (fda_request u))
      | Retry e \<Rightarrow>
          (case pause (attempts ! j) of
             Some x \<Rightarrow>
               (Some (Inl x),
                if j = 0 then last_exception
                else Some (cause_of (net (length sent + j - 1) (fda_request u))),
                sent @ replicate (Suc j) (fda_request u))
           | None \<Rightarrow>
               fda_attempts pause net u (drop (Suc j) attempts) (Some e)
                 (sent @ replicate (Suc j) (fda_request u))))"
proof -
  let ?pre = "take j attempts"
  let ?q = "fda_request u"
  have len: "length ?pre = j" using assms(1) by simp
  have emp: "(?pre = []) = (j = 0)" using assms(1) by auto
  have split: "attempts = ?pre @ (attempts ! j) # drop (Suc j) attempts"
    using assms(1) by (simp add: id_take_nth_drop)
  have pre: "\<forall>i<length ?pre. failing (net (length sent + i) ?q)"
    using assms(2) len by simp
  have grow: "(sent @ replicate j ?q) @ [?q] = sent @ replicate (Suc j) ?q"
    by (simp add: replicate_append_same)
  have "fda_attempts pause net u attempts last_exception sent =
        fda_attempts pause net u (?pre @ (attempts ! j) # drop (Suc j) attempts)
          last_exception sent"
    using split by simp
  also have "\<dots> = fda_attempts pause net u ((attempts ! j) # drop (Suc j) attempts)
        (if ?pre = [] then last_exception
         else Some (cause_of (net (length sent + length ?pre - 1) ?q)))
        (sent @ replicate (length ?pre) ?q)"
    using pre assms(3)
      fda_attempts_failing_prefix
        [of ?pre net sent u pause "(attempts ! j) # drop (Suc j) attempts" last_exception]
    by blast
  also have "\<dots> = fda_attempts pause net u ((attempts ! j) # drop (Suc j) attempts)
        (if j = 0 then last_exception else Some (cause_of (net (length sent + j - 1) ?q)))
        (sent @ replicate j ?q)"
    by (simp only: len emp)
  finally show ?thesis
    by (simp only: fda_attempts_step grow length_append length_replicate)
qed

lemma trials_attempts_decided:
  assumes "j < length attempts"
    and "\<forall>i<j. failing (net (length sent + i) q)"
    and "\<forall>a\<in>set (take j attempts). pause a = None"
  shows "trials_attempts pause net q attempts last_exception sent =
     (case trials_attempt (net (length sent + j) q) of
        Returned studies \<Rightarrow>
          (Some (Inr studies),
           if j = 0 then last_exception
           else Some (cause_of (net (length sent + j - 1) q)),
           sent @ replicate (Suc j) q)
      | Raised e \<Rightarrow>
          (Some (Inl e),
           if j = 0 then last_exception
           else Some (cause_of (net (length sent + j - 1) q)),
           sent @ replicate (Suc j) q)
      | Retry e \<Rightarrow>
          (case pause (attempts ! j) of
             Some x \<Rightarrow>
               (Some (Inl x),
                if j = 0 then last_exception
                else Some (cause_of (net (length sent + j - 1) q)),
                sent @ replicate (Suc j) q)
           | None \<Rightarrow>
               trials_attempts pause net q (drop (Suc j) attempts) (Some e)
                 (sent @ replicate (Suc j) q)))"
proof -
  let ?pre = "take j attempts"
  have len: "length ?pre = j" using assms(1) by simp
  have emp: "(?pre = []) = (j = 0)" using assms(1) by auto
  have split: "attempts = ?pre @ (attempts ! j) # drop (Suc j) attempts"
    using assms(1) by (simp add: id_take_nth_drop)
  have pre: "\<forall>i<length ?pre. failing (net (length sent + i) q)"
    using assms(2) len by simp
  have grow: "(sent @ replicate j q) @ [q] = sent @ replicate (Suc j) q"
    by (simp add: replicate_append_same)
  have "trials_attempts pause net q attempts last_exception sent =
        trials_attempts pause net q (?pre @ (attempts ! j) # drop (Suc j) attempts)
          last_exception sent"
    using split by simp
  also have "\<dots> = trials_attempts pause net q ((attempts ! j) # drop (Suc j) attempts)
        (if ?pre = [] then last_exception
         else Some (cause_of (net (length sent + length ?pre - 1) q)))
        (sent @ replicate (length ?pre) q)"
    using pre assms(3)
      trials_attempts_failing_prefix
        [of ?pre net sent q pause "(attempts ! j) # drop (Suc j) attempts" last_exception]
    by blast
  also have "\<dots> = trials_attempts pause net q ((attempts ! j) # drop (Suc j) attempts)
        (if j = 0 then last_exception else Some (cause_of (net (length sent + j - 1) q)))
        (sent @ replicate j q)"
    by (simp only: len emp)
  finally show ?thesis
    by (simp only: trials_attempts_step grow length_append length_replicate)
qed

lemma fda_attempt_200:
  "fda_attempt (Response 200 (Inr data)) =
     (case dict_get data ''results'' (JList []) of Inl e \<Rightarrow> Raised e | Inr results \<Rightarrow> Returned results)"
  by (cases data) (simp_all add: fda_attempt_def handle_exn_def)

lemma getitem_error: "getitem v k = Inl e \<Longrightarrow> \<not> is_request_exception e \<and> \<not> is_timeout e"
  by (cases v) (auto split: option.splits)

lemma study_fields_error: "study_fields data = Inl e \<Longrightarrow> handle_exn e = Raised e"
  by (auto simp: study_fields_def handle_exn_def split: sum.splits dest: getitem_error)

lemma trials_attempt_200:
  "trials_attempt (Response 200 (Inr data)) =
     (case study_fields data of Inl e \<Rightarrow> Raised e | Inr studies \<Rightarrow> Returned studies)"
  by (auto simp: trials_attempt_def study_fields_error split: sum.splits)

lemma fetch_fda_after_failures:
  assumes "j < nat retries"
    and "\<forall>i<j. failing (net (length sent + i) (fda_request (fda_search_url (clamp_limit limit))))"
    and "\<forall>a. 1 \<le> a \<and> a \<le> int j \<longrightarrow> sleep backoff a = None"
    and "net (length sent + j) (fda_request (fda_search_url (clamp_limit limit)))
           = Response 200 (Inr data)"
  shows "fetch_fda_approvals sleep net limit retries backoff sent =
     (dict_get data ''results'' (JList []),
      sent @ replicate (Suc j) (fda_request (fda_search_url (clamp_limit limit))))"
proof -
  have len: "j < length [1..retries]" using assms(1) by simp
  have waits: "\<forall>a\<in>set (take j [1..retries]). sleep backoff a = None"
    using assms(3) first_attempts by blast
  from fda_attempts_decided
         [of j "[1..retries]" net sent "fda_search_url (clamp_limit limit)" "sleep backoff" None]
       len assms(2) waits assms(4)
  show ?thesis
    by (simp add: fetch_fda_approvals_def fda_urls_def fda_attempt_200 split: sum.splits)
qed

lemma fetch_trials_after_failures:
  assumes "j < nat retries"
    and "\<forall>i<j. failing (net (length sent + i) (trials_request term ph max_studies))"
    and "\<forall>a. 1 \<le> a \<and> a \<le> int j \<longrightarrow> sleep (3 / 2) a = None"
    and "net (length sent + j) (trials_request term ph max_studies) = Response 200 (Inr data)"
  shows "fetch_clinical_trials sleep net term ph max_studies retries sent =
     (study_fields data, sent @ replicate (Suc j) (trials_request term ph max_studies))"
proof -
  have len: "j < length [1..retries]" using assms(1) by simp
  have waits: "\<forall>a\<in>set (take j [1..retries]). sleep (3 / 2) a = None"
    using assms(3) first_attempts by blast
  from trials_attempts_decided
         [of j "[1..retries]" net sent "trials_request term ph max_studies" "sleep (3 / 2)" None]
       len assms(2) waits assms(4)
  show ?thesis
    by (simp add: fetch_clinical_trials_def trials_attempt_200 split: sum.splits)
qed
text \<open>
  Claim C3, as the code has it. When the first \<open>retries - 1\<close> attempts fail, the
  waits after them return, and attempt \<open>retries\<close> gets status 200 with a body that
  decodes to an object, \<^verbatim>\<open>fetch_fda_approvals\<close> returns the \<open>results\<close> of that
  object (the empty list when it has none) and has made exactly \<open>retries\<close>
  requests, all to the first URL. \<^verbatim>\<open>fetch_clinical_trials\<close> does the same when
  the object holds \<open>StudyFields\<close> inside \<open>StudyFieldsResponse\<close>, and returns
  those.
\<close>

theorem retry_returns_on_last_attempt:
  assumes "0 < retries"
  shows "((\<forall>a. 1 \<le> a \<and> a < retries \<longrightarrow> sleep backoff a = None)
          \<and> (\<forall>i<nat retries - 1.
                failing (net (length sent + i) (fda_request (fda_search_url (clamp_limit limit)))))
          \<and> net (length sent + (nat retries - 1))
                (fda_request (fda_search_url (clamp_limit limit)))
               = Response 200 (Inr (JObj kvs))
          \<longrightarrow> fetch_fda_approvals sleep net limit retries backoff sent =
                (Inr (case map_of kvs ''results'' of None \<Rightarrow> JList [] | Some results \<Rightarrow> results),
                 sent @ replicate (nat retries)
                          (fda_request (fda_search_url (clamp_limit limit)))))
       \<and> ((\<forall>a. 1 \<le> a \<and> a < retries \<longrightarrow> sleep (3 / 2) a = None)
          \<and> (\<forall>i<nat retries - 1.
                failing (net (length sent + i) (trials_request term ph max_studies)))
          \<and> net (length sent + (nat retries - 1)) (trials_request term ph max_studies)
               = Response 200 (Inr (JObj kvs))
          \<and> map_of kvs ''StudyFieldsResponse'' = Some (JObj inner)
          \<and> map_of inner ''StudyFields'' = Some studies
          \<longrightarrow> fetch_clinical_trials sleep net term ph max_studies retries sent =
                (Inr studies,
                 sent @ replicate (nat retries) (trials_request term ph max_studies)))"
proof -
  from assms have j: "nat retries - 1 < nat retries" and s: "Suc (nat retries - 1) = nat retries"
    by simp_all
  have w: "(\<forall>a. 1 \<le> a \<and> a < retries \<longrightarrow> sleep b a = None)
        \<Longrightarrow> (\<forall>a. 1 \<le> a \<and> a \<le> int (nat retries - 1) \<longrightarrow> sleep b a = None)" for b
    using assms by auto
  have f: "map_of kvs ''StudyFieldsResponse'' = Some (JObj inner)
        \<and> map_of inner ''StudyFields'' = Some studies
        \<longrightarrow> study_fields (JObj kvs) = Inr studies"
    by (simp add: study_fields_def)
  have a: "(\<forall>a. 1 \<le> a \<and> a < retries \<longrightarrow> sleep backoff a = None)
          \<and> (\<forall>i<nat retries - 1.
                failing (net (length sent + i) (fda_request (fda_search_url (clamp_limit limit)))))
          \<and> net (length sent + (nat retries - 1))
                (fda_request (fda_search_url (clamp_limit limit)))
               = Response 200 (Inr (JObj kvs))
          \<longrightarrow> fetch_fda_approvals sleep net limit retries backoff sent =
                (Inr (case map_of kvs ''results'' of None \<Rightarrow> JList [] | Some results \<Rightarrow> results),
                 sent @ replicate (nat retries)
                          (fda_request (fda_search_url (clamp_limit limit))))"
    using fetch_fda_after_failures
            [of "nat retries - 1" retries net sent limit sleep backoff "JObj kvs"]
          j w [of backoff]
    by (auto simp: s)
  have b: "(\<forall>a. 1 \<le> a \<and> a < retries \<longrightarrow> sleep (3 / 2) a = None)
          \<and> (\<forall>i<nat retries - 1.
                failing (net (length sent + i) (trials_request term ph max_studies)))
          \<and> net (length sent + (nat retries - 1)) (trials_request term ph max_studies)
               = Response 200 (Inr (JObj kvs))
          \<and> map_of kvs ''StudyFieldsResponse'' = Some (JObj inner)
          \<and> map_of inner ''StudyFields'' = Some studies
          \<longrightarrow> fetch_clinical_trials sleep net term ph max_studies retries sent =
                (Inr studies,
                 sent @ replicate (nat retries) (trials_request term ph max_studies))"
    using fetch_trials_after_failures
            [of "nat retries - 1" retries net sent "term" ph max_studies sleep "JObj kvs"]
          j w [of "3 / 2"] f
    by (auto simp: s)
  from a b show ?thesis by blast
qed

text \<open>Two timeouts and then a result; one 503 and then a result; the default backoff.\<close>

theorem retry_returns_on_last_attempt_witness:
  "fetch_fda_approvals sleep_pow
     (\<lambda>n q. if n < 2 then Raises Timeout
            else Response 200 (Inr (JObj [(''results'', JList [JStr ''entry''])])))
     (Some 50) 3 (3 / 2) []
     = (Inr (JList [JStr ''entry'']), replicate 3 (fda_request (fda_search_url 50)))
   \<and> fetch_clinical_trials sleep_pow
     (\<lambda>n q. if n < 1 then Response 503 (Inl JSONDecodeError)
            else Response 200
                   (Inr (JObj [(''StudyFieldsResponse'',
                                JObj [(''StudyFields'', JList [JStr ''study''])])])))
     ''oncology'' ''Phase 3'' 200 2 []
     = (Inr (JList [JStr ''study'']),
        replicate 2 (trials_request ''oncology'' ''Phase 3'' 200))"
  using retry_returns_on_last_attempt
    [of 3 sleep_pow "3 / 2"
        "\<lambda>n q. if n < 2 then Raises Timeout
               else Response 200 (Inr (JObj [(''results'', JList [JStr ''entry''])]))"
        "[]" "Some 50" "[(''results'', JList [JStr ''entry''])]"]
    retry_returns_on_last_attempt
    [of 2 sleep_pow _
        "\<lambda>n q. if n < 1 then Response 503 (Inl JSONDecodeError)
               else Response 200
                      (Inr (JObj [(''StudyFieldsResponse'',
                                   JObj [(''StudyFields'', JList [JStr ''study''])])]))"
        "[]" _ "[(''StudyFieldsResponse'', JObj [(''StudyFields'', JList [JStr ''study''])])]"
        "''oncology''" "''Phase 3''" 200 "[(''StudyFields'', JList [JStr ''study''])]"
        "JList [JStr ''study'']"]
  by (simp add: failing_def clamp_limit_def numeral_eq_Suc default_waits)

text \<open>
  A 200 on the last attempt is not always a result after \<open>retries\<close> attempts. A body
  that does not decode is retried like a failure: after two timeouts and such a 200
  the fetch goes on to the second URL and raises its \<open>RuntimeError\<close> after six
  requests. A body that is an array makes \<^verbatim>\<open>data.get\<close> raise \<open>AttributeError\<close>.
\<close>

theorem retry_undecodable_counterexample:
  "fetch_fda_approvals sleep_pow
     (\<lambda>n q. if n < 2 then Raises Timeout else Response 200 (Inl JSONDecodeError))
     (Some 50) 3 (3 / 2) []
     = (Inl (RuntimeError fda_failed (Some JSONDecodeError)),
        replicate 3 (fda_request (fda_search_url 50))
        @ replicate 3 (fda_request (fda_plain_url 50)))
   \<and> fetch_fda_approvals sleep_pow
     (\<lambda>n q. if n < 2 then Raises Timeout else Response 200 (Inr (JList [JStr ''entry''])))
     (Some 50) 3 (3 / 2) []
     = (Inl AttributeError, replicate 3 (fda_request (fda_search_url 50)))"
  by (simp add: fetch_fda_approvals_def fda_urls_def clamp_limit_def default_attempts
        requests_get_def fda_attempt_def handle_exn_def default_waits numeral_eq_Suc)

text \<open>
  Claim C10. A 200 response whose object lacks \<open>StudyFieldsResponse\<close>, or whose
  \<open>StudyFieldsResponse\<close> object lacks \<open>StudyFields\<close>, makes the trial fetch raise
  \<open>KeyError\<close> for that key at once: after \<open>j\<close> failed attempts (and the waits that
  follow them) it is request \<open>j + 1\<close> that ends the call, however many retries
  remain, and the error is the \<open>KeyError\<close> itself, not the \<open>RuntimeError\<close> of
  exhaustion. The fetch of \<^verbatim>\<open>app.py\<close> raises the same \<open>KeyError\<close>. The FDA fetch
  returns the empty list when its 200 response lacks \<open>results\<close>.
\<close>

theorem missing_keys_raise_without_retry:
  "(j < nat retries
      \<and> (\<forall>i<j. failing (net (length sent + i) (trials_request term ph max_studies)))
      \<and> (\<forall>a. 1 \<le> a \<and> a \<le> int j \<longrightarrow> sleep (3 / 2) a = None)
      \<and> net (length sent + j) (trials_request term ph max_studies)
           = Response 200 (Inr (JObj kvs))
      \<and> missing_key kvs = Some k
    \<longrightarrow> fetch_clinical_trials sleep net term ph max_studies retries sent =
          (Inl (KeyError k), sent @ replicate (Suc j) (trials_request term ph max_studies)))
   \<and> (net (length sent) (app_trials_request term ph max_studies)
           = Response 200 (Inr (JObj kvs))
      \<and> missing_key kvs = Some k
    \<longrightarrow> app_fetch_clinical_trials net term ph max_studies sent =
          (Inl (KeyError k), sent @ [app_trials_request term ph max_studies]))
   \<and> (0 < retries
      \<and> net (length sent) (fda_request (fda_search_url (clamp_limit limit)))
           = Response 200 (Inr (JObj kvs))
      \<and> map_of kvs ''results'' = None
    \<longrightarrow> fetch_fda_approvals sleep net limit retries backoff sent =
          (Inr (JList []), sent @ [fda_request (fda_search_url (clamp_limit limit))]))"
proof -
  have key: "missing_key kvs = Some k \<Longrightarrow> study_fields (JObj kvs) = Inl (KeyError k)"
    by (auto simp: missing_key_def study_fields_def split: option.splits json.splits)
  have a: "j < nat retries
      \<and> (\<forall>i<j. failing (net (length sent + i) (trials_request term ph max_studies)))
      \<and> (\<forall>a. 1 \<le> a \<and> a \<le> int j \<longrightarrow> sleep (3 / 2) a = None)
      \<and> net (length sent + j) (trials_request term ph max_studies)
           = Response 200 (Inr (JObj kvs))
      \<and> missing_key kvs = Some k
    \<longrightarrow> fetch_clinical_trials sleep net term ph max_studies retries sent =
          (Inl (KeyError k), sent @ replicate (Suc j) (trials_request term ph max_studies))"
    using fetch_trials_after_failures
            [of j retries net sent "term" ph max_studies sleep "JObj kvs"] key
    by auto
  have b: "net (length sent) (app_trials_request term ph max_studies)
           = Response 200 (Inr (JObj kvs))
      \<and> missing_key kvs = Some k
    \<longrightarrow> app_fetch_clinical_trials net term ph max_studies sent =
          (Inl (KeyError k), sent @ [app_trials_request term ph max_studies])"
    using key
    by (auto simp: app_fetch_clinical_trials_def requests_get_def raise_for_status_def)
  have c: "0 < retries
      \<and> net (length sent) (fda_request (fda_search_url (clamp_limit limit)))
           = Response 200 (Inr (JObj kvs))
      \<and> map_of kvs ''results'' = None
    \<longrightarrow> fetch_fda_approvals sleep net limit retries backoff sent =
          (Inr (JList []), sent @ [fda_request (fda_search_url (clamp_limit limit))])"
  proof -
    have "\<forall>a. 1 \<le> a \<and> a \<le> int 0 \<longrightarrow> sleep backoff a = None" by auto
    with fetch_fda_after_failures [of 0 retries net sent limit sleep backoff "JObj kvs"]
    show ?thesis by auto
  qed
  from a b c show ?thesis by blast
qed

text \<open>A timeout, then an error object: two requests of the five allowed.\<close>

theorem missing_keys_raise_without_retry_witness:
  "fetch_clinical_trials sleep_pow
     (\<lambda>n q. if n < 1 then Raises Timeout else Response 200 (Inr (JObj [(''error'', JStr ''gone'')])))
     ''oncology'' ''Phase 3'' 200 5 []
     = (Inl (KeyError ''StudyFieldsResponse''),
        replicate 2 (trials_request ''oncology'' ''Phase 3'' 200))
   \<and> app_fetch_clinical_trials
     (\<lambda>n q. Response 200 (Inr (JObj [(''StudyFieldsResponse'', JObj [])])))
     ''oncology'' ''Phase 3'' 200 []
     = (Inl (KeyError ''StudyFields''), [app_trials_request ''oncology'' ''Phase 3'' 200])
   \<and> fetch_fda_approvals sleep_pow
     (\<lambda>n q. Response 200 (Inr (JObj [(''error'', JStr ''gone'')]))) (Some 50) 3 (3 / 2) []
     = (Inr (JList []), [fda_request (fda_search_url 50)])"
  using missing_keys_raise_without_retry
    [of 1 5 "\<lambda>n q. if n < 1 then Raises Timeout
                   else Response 200 (Inr (JObj [(''error'', JStr ''gone'')]))"
        "[]" "''oncology''" "''Phase 3''" 200 sleep_pow "[(''error'', JStr ''gone'')]"
        "''StudyFieldsResponse''"]
    missing_keys_raise_without_retry
    [of _ _ "\<lambda>n q. Response 200 (Inr (JObj [(''StudyFieldsResponse'', JObj [])]))"
        "[]" "''oncology''" "''Phase 3''" 200 _ "[(''StudyFieldsResponse'', JObj [])]"
        "''StudyFields''"]
    missing_keys_raise_without_retry
    [of _ 3 "\<lambda>n q. Response 200 (Inr (JObj [(''error'', JStr ''gone'')]))"
        "[]" _ _ _ sleep_pow "[(''error'', JStr ''gone'')]" _ "Some 50" "3 / 2"]
  by (simp add: failing_def clamp_limit_def missing_key_def numeral_eq_Suc default_waits)

subsection \<open>The limit of the FDA query\<close>

lemma fda_attempts_requests:
  "\<exists>new. snd (snd (fda_attempts pause net u attempts last_exception sent)) = sent @ new
     \<and> list_all (\<lambda>q. q = fda_request u) new
     \<and> (attempts \<noteq> [] \<longrightarrow> new \<noteq> [])"
proof (induction attempts arbitrary: last_exception sent)
  case Nil
  show ?case by simp
next
  case (Cons a attempts)
  show ?case
  proof (cases "fda_attempt (net (length sent) (fda_request u))")
    case (Retry e)
    show ?thesis
    proof (cases "pause a")
      case None
      from Cons.IH [of "Some e" "sent @ [fda_request u]"] obtain new where
        "snd (snd (fda_attempts pause net u attempts (Some e) (sent @ [fda_request u])))
           = (sent @ [fda_request u]) @ new" "list_all (\<lambda>q. q = fda_request u) new"
        by blast
      with Retry None show ?thesis
        by (simp add: requests_get_def)
    next
      case (Some x)
      with Retry show ?thesis by (simp add: requests_get_def)
    qed
  qed (simp_all add: requests_get_def)
qed

lemma fda_each_url_requests:
  "\<exists>new. snd (snd (fda_each_url pause net us retries last_exception sent)) = sent @ new
     \<and> list_all (\<lambda>q. req_url q \<in> set us) new
     \<and> (us \<noteq> [] \<and> 0 < retries \<longrightarrow> new \<noteq> [])"
proof (induction us arbitrary: last_exception sent)
  case Nil
  show ?case by simp
next
  case (Cons u us)
  obtain r last' sent' where
    run: "fda_attempts pause net u [1..retries] last_exception sent = (r, last', sent')"
    by (cases "fda_attempts pause net u [1..retries] last_exception sent") auto
  from fda_attempts_requests [of pause net u "[1..retries]" last_exception sent] run
  obtain new where new: "sent' = sent @ new" "list_all (\<lambda>q. q = fda_request u) new"
    "[1..retries] \<noteq> [] \<longrightarrow> new \<noteq> []"
    by auto
  from new(2) have here: "list_all (\<lambda>q. req_url q \<in> set (u # us)) new"
    by (induction new) (simp_all add: fda_request_def)
  from new(3) have ne: "0 < retries \<longrightarrow> new \<noteq> []"
    by (simp add: attempts_empty_iff)
  show ?case
  proof (cases r)
    case (Some x)
    with run new here ne show ?thesis by simp
  next
    case None
    from Cons.IH [of last' sent'] obtain more where
      more: "snd (snd (fda_each_url pause net us retries last' sent')) = sent' @ more"
        "list_all (\<lambda>q. req_url q \<in> set us) more"
      by blast
    from more(2) have "list_all (\<lambda>q. req_url q \<in> set (u # us)) more"
      by (induction more) simp_all
    with None run new here ne more(1) show ?thesis by simp
  qed
qed

text \<open>
  Claim C5, as the code has it. \<^verbatim>\<open>fetch_fda_approvals\<close> of \<^verbatim>\<open>app_patched.py\<close> and
  \<^verbatim>\<open>pharma_dashboard_v1.py\<close> never rejects a limit: a limit from 1 to 100 is kept, a
  limit above 100 becomes 100, and \<open>None\<close>, zero or a negative limit is replaced by
  the default 100. Every request the call issues carries that value, and with
  \<open>retries > 0\<close> a request is issued, whatever the waits between the attempts do.
\<close>

theorem limit_brought_into_range:
  "clamp_limit None = 100
   \<and> clamp_limit (Some l) = (if 1 \<le> l \<and> l \<le> 100 then l else 100)
   \<and> 1 \<le> clamp_limit limit \<and> clamp_limit limit \<le> 100
   \<and> (\<exists>new. snd (fetch_fda_approvals sleep net limit retries backoff sent) = sent @ new
         \<and> list_all (\<lambda>q. req_url q \<in> set (fda_urls (clamp_limit limit))) new
         \<and> (0 < retries \<longrightarrow> new \<noteq> []))"
proof -
  have a: "clamp_limit None = 100" by (simp add: clamp_limit_def)
  have b: "clamp_limit (Some l) = (if 1 \<le> l \<and> l \<le> 100 then l else 100)"
    by (simp add: clamp_limit_def)
  have c: "1 \<le> clamp_limit limit \<and> clamp_limit limit \<le> 100"
    by (cases limit) (simp_all add: clamp_limit_def)
  from fda_each_url_requests [of "sleep backoff" net "fda_urls (clamp_limit limit)" retries None sent]
  obtain new where new:
    "snd (snd (fda_each_url (sleep backoff) net (fda_urls (clamp_limit limit)) retries None sent))
       = sent @ new"
    "list_all (\<lambda>q. req_url q \<in> set (fda_urls (clamp_limit limit))) new"
    "fda_urls (clamp_limit limit) \<noteq> [] \<and> 0 < retries \<longrightarrow> new \<noteq> []"
    by blast
  have "snd (fetch_fda_approvals sleep net limit retries backoff sent) =
        snd (snd (fda_each_url (sleep backoff) net (fda_urls (clamp_limit limit)) retries None sent))"
    by (simp add: fetch_fda_approvals_def split: prod.splits option.splits)
  with new have d: "\<exists>new. snd (fetch_fda_approvals sleep net limit retries backoff sent) = sent @ new
         \<and> list_all (\<lambda>q. req_url q \<in> set (fda_urls (clamp_limit limit))) new
         \<and> (0 < retries \<longrightarrow> new \<noteq> [])"
    by (auto simp: fda_urls_def)
  from a b c d show ?thesis by blast
qed

text \<open>The limits 250, 37 and -4; the limit 250 on a server that times out.\<close>

theorem limit_brought_into_range_witness:
  "clamp_limit (Some 250) = 100 \<and> clamp_limit (Some 37) = 37 \<and> clamp_limit (Some (- 4)) = 100
   \<and> (\<exists>new. snd (fetch_fda_approvals sleep_pow (\<lambda>n q. Raises Timeout) (Some 250) 3 (3 / 2) [])
               = new
         \<and> list_all (\<lambda>q. req_url q \<in> set (fda_urls 100)) new \<and> new \<noteq> [])"
  using limit_brought_into_range
          [of 250 "Some 250" sleep_pow "\<lambda>n q. Raises Timeout" 3 "3 / 2" "[]"]
    limit_brought_into_range [of 37] limit_brought_into_range [of "- 4"]
  by (simp add: clamp_limit_def)

text \<open>
  A limit below the range is not clamped to the nearest bound: for limit 0 the
  requests ask for 100 entries, not for 1.
\<close>

theorem limit_not_nearest_bound_counterexample:
  "clamp_limit (Some 0) = 100 \<and> clamp_limit (Some 0) \<noteq> max 1 (min 100 0)
   \<and> map req_url
       (snd (fetch_fda_approvals sleep_pow (\<lambda>n q. Raises Timeout) (Some 0) 1 (3 / 2) []))
       = [fda_search_url 100, fda_plain_url 100]"
  by (simp add: clamp_limit_def fetch_fda_approvals_def fda_urls_def requests_get_def
        fda_attempt_def handle_exn_def fda_request_def sleep_pow_def)

subsection \<open>A failing source\<close>

lemma load_trials_frames:
  "fst (load_trials pd sleep net term phases trials_dfs errs sent) =
     trials_dfs @ trial_frames pd sleep net term phases sent"
  by (induction phases arbitrary: trials_dfs errs sent)
     (auto split: prod.splits sum.splits)

lemma trials_attempts_requests:
  "\<exists>new. snd (snd (trials_attempts pause net q attempts last_exception sent)) = sent @ new
     \<and> (attempts \<noteq> [] \<longrightarrow> q \<in> set new)"
proof (induction attempts arbitrary: last_exception sent)
  case Nil
  show ?case by simp
next
  case (Cons a attempts)
  show ?case
  proof (cases "trials_attempt (net (length sent) q)")
    case (Retry e)
    show ?thesis
    proof (cases "pause a")
      case None
      from Cons.IH [of "Some e" "sent @ [q]"] obtain new where
        "snd (snd (trials_attempts pause net q attempts (Some e) (sent @ [q])))
           = (sent @ [q]) @ new"
        by blast
      with Retry None show ?thesis
        by (simp add: requests_get_def)
    next
      case (Some x)
      with Retry show ?thesis by (simp add: requests_get_def)
    qed
  qed (simp_all add: requests_get_def)
qed

lemma fetch_trials_requests:
  "\<exists>new. snd (fetch_clinical_trials sleep net term ph max_studies retries sent) = sent @ new
     \<and> (0 < retries \<longrightarrow> trials_request term ph max_studies \<in> set new)"
proof -
  have "snd (fetch_clinical_trials sleep net term ph max_studies retries sent) =
        snd (snd (trials_attempts (sleep (3 / 2)) net (trials_request term ph max_studies) [1..retries]
                    None sent))"
    by (simp add: fetch_clinical_trials_def split: prod.splits option.splits)
  with trials_attempts_requests
         [of "sleep (3 / 2)" net "trials_request term ph max_studies" "[1..retries]" None sent]
  show ?thesis by (auto simp: attempts_empty_iff)
qed

lemma load_trials_requests:
  "\<exists>new. snd (snd (load_trials pd sleep net term phases trials_dfs errs sent)) = sent @ new
     \<and> list_all (\<lambda>ph. trials_request term ph 200 \<in> set new) phases"
proof (induction phases arbitrary: trials_dfs errs sent)
  case Nil
  show ?case by simp
next
  case (Cons ph phases)
  obtain r sent1 where f: "fetch_clinical_trials sleep net term ph 200 2 sent = (r, sent1)"
    by (cases "fetch_clinical_trials sleep net term ph 200 2 sent") auto
  from fetch_trials_requests [of sleep net "term" ph 200 2 sent] f obtain new1 where
    n1: "sent1 = sent @ new1" "trials_request term ph 200 \<in> set new1"
    by auto
  have "\<exists>dfs' errs'. load_trials pd sleep net term (ph # phases) trials_dfs errs sent =
          load_trials pd sleep net term phases dfs' errs' sent1"
    using f by (auto split: sum.splits)
  then obtain dfs' errs' where step:
    "load_trials pd sleep net term (ph # phases) trials_dfs errs sent =
       load_trials pd sleep net term phases dfs' errs' sent1"
    by blast
  from Cons.IH [of dfs' errs' sent1] obtain new2 where
    n2: "snd (snd (load_trials pd sleep net term phases dfs' errs' sent1)) = sent1 @ new2"
        "list_all (\<lambda>ph. trials_request term ph 200 \<in> set new2) phases"
    by blast
  from n2(2) have "list_all (\<lambda>ph. trials_request term ph 200 \<in> set (new1 @ new2)) phases"
    by (simp add: list_all_iff)
  with n1 n2(1) step show ?case
    by (intro exI [of _ "new1 @ new2"]) simp
qed

text \<open>
  The driver of \<^verbatim>\<open>app_patched.py\<close> goes on after a failure of a fetch or of a
  normalization: up to line 188 the combined table is the FDA frame followed by the
  trial frames of the phases whose fetch and normalization succeeded, and every
  selected phase is requested from the registry. Whether the table is then shown
  depends on line 190, which is outside every \<^verbatim>\<open>try\<close>.
\<close>

lemma gather_patched_combined:
  "gather_patched pd sleep net term phases fda_limit = (fda_df, trials_dfs, errs, sent) \<Longrightarrow>
   fda_df = fst (load_fda pd sleep net fda_limit [])
   \<and> trials_dfs =
       trial_frames pd sleep net term phases (snd (snd (load_fda pd sleep net fda_limit [])))"
proof -
  assume g: "gather_patched pd sleep net term phases fda_limit = (fda_df, trials_dfs, errs, sent)"
  obtain f0 errs0 sent0 where f: "load_fda pd sleep net fda_limit [] = (f0, errs0, sent0)"
    by (cases "load_fda pd sleep net fda_limit []") auto
  obtain dfs errs' sent' where
    t: "load_trials pd sleep net term phases [] errs0 sent0 = (dfs, errs', sent')"
    by (cases "load_trials pd sleep net term phases [] errs0 sent0") auto
  from load_trials_frames [of pd sleep net "term" phases "[]" errs0 sent0] t
  have "dfs = trial_frames pd sleep net term phases sent0" by simp
  with f t g show ?thesis
    by (simp add: gather_patched_def)
qed

lemma gather_patched_requests:
  "gather_patched pd sleep net term phases fda_limit = (fda_df, trials_dfs, errs, sent) \<Longrightarrow>
   list_all (\<lambda>ph. trials_request term ph 200 \<in> set sent) phases"
proof -
  assume g: "gather_patched pd sleep net term phases fda_limit = (fda_df, trials_dfs, errs, sent)"
  obtain f0 errs0 sent0 where f: "load_fda pd sleep net fda_limit [] = (f0, errs0, sent0)"
    by (cases "load_fda pd sleep net fda_limit []") auto
  obtain dfs errs' sent' where
    t: "load_trials pd sleep net term phases [] errs0 sent0 = (dfs, errs', sent')"
    by (cases "load_trials pd sleep net term phases [] errs0 sent0") auto
  from load_trials_requests [of pd sleep net "term" phases "[]" errs0 sent0] t obtain new where
    "sent' = sent0 @ new" "list_all (\<lambda>ph. trials_request term ph 200 \<in> set new) phases"
    by auto
  then have "list_all (\<lambda>ph. trials_request term ph 200 \<in> set sent') phases"
    by (simp add: list_all_iff)
  moreover have "sent = sent'"
    using f t g by (simp add: gather_patched_def)
  ultimately show ?thesis by simp
qed

text \<open>
  Claim C1 on \<^verbatim>\<open>app.py\<close>. The FDA endpoint answers 500 while the registry would
  deliver one study. \<^verbatim>\<open>raise_for_status\<close> raises, nothing catches it, and the run
  ends with that \<open>HTTPError\<close>: no trial is fetched and no table is built. On the same
  network \<^verbatim>\<open>app_patched.py\<close> reports the failure, after three requests to each of
  the two FDA URLs, and shows the study, fetched with the seventh request.
\<close>

theorem app_aborts_when_fda_fails:
  "run_app scenario_pandas fda_down ''oncology'' [''Phase 3''] 200 = Inl (HTTPError 500)
   \<and> fst (app_fetch_clinical_trials fda_down ''oncology'' ''Phase 3'' 200 [])
       = Inr (JList [the_study])
   \<and> map_sum id combined
       (run_patched scenario_pandas sleep_pow fda_down ''oncology'' [''Phase 3''] 50) =
       Inr [\<lparr>source = ''ClinicalTrials.gov'', sponsor = JStr ''Acme'',
             date = Some \<lparr>year = 2024, month = 3, day = 1, utc_offset = None\<rparr>,
             phase = JStr ''Phase 3'', trial_id = JStr ''NCT01'', submission_type = JNull,
             submission_class = JNull\<rparr>]
   \<and> map_sum id failures
       (run_patched scenario_pandas sleep_pow fda_down ''oncology'' [''Phase 3''] 50) =
       Inr [RuntimeError fda_failed (Some (HTTPError 500))]
   \<and> map_sum id (\<lambda>d. length (requests d))
       (run_patched scenario_pandas sleep_pow fda_down ''oncology'' [''Phase 3''] 50) = Inr 7"
  by (simp add: run_app_def app_fetch_fda_approvals_def app_fetch_clinical_trials_def
        requests_get_def fda_down_def app_fda_request_def app_trials_request_def
        trials_params_def raise_for_status_def study_fields_def one_study_def the_study_def
        run_patched_def gather_patched_def load_fda_def fetch_fda_approvals_def fda_urls_def
        fda_request_def
        fda_attempt_def handle_exn_def fetch_clinical_trials_def trials_request_def
        trials_attempt_def parse_trials_def first_of_def to_frame_def dropna_def set_date_def
        compact_date_def digit_of_def days_in_month_def combine_def present_def
        default_attempts scenario_pandas_def scenario_to_datetime_def read_date_def
        offsets_def one_zone_def default_waits map_filter_simps)

end
